theory Spec2Isabelle
  imports Complex_Main "HOL-Library.Word"
begin

section \<open>Data model of \<open>CNetworkPlayer\<close> and of the objects it talks to\<close>

text \<open>
  The development follows \<open>Client/Core/CNetworkPlayer.cpp\<close>. One \<open>World\<close> value holds the
  \<open>CNetworkPlayer\<close> object the methods are called on (\<open>self\<close>), the game-side ped it
  wraps, the \<open>CNetworkVehicle\<close> objects (a store indexed by object address), the list of
  streamed-in vehicles, the RPCs handed to the network manager, the log file, the clock
  and the pad. Every method is a function from \<open>World\<close> to \<open>World\<close>; a method that
  dereferences a vehicle pointer returns \<open>error + World\<close>, and dereferencing \<open>NULL\<close>
  is \<open>Inl NullPointer\<close>.

  A \<open>float\<close> value is the \<open>real\<close> it denotes; \<open>unsigned long\<close>, \<open>unsigned int\<close> and
  \<open>DWORD\<close> are \<open>32 word\<close> (the target is 32-bit Windows), \<open>BYTE\<close> is \<open>8 word\<close>.
  Sums, differences and products of positions are taken exactly. The two lengths the file
  compares with a threshold, \<open>CVector3::Length()\<close> against 5 and
  \<open>Math::GetDistanceBetweenPoints3D\<close> against 6.0, come from functions declared outside
  this file that compute in single precision: the values they return are the fields
  \<open>machine_Length\<close> and \<open>machine_Distance3D\<close> of the world, so that every statement
  below holds whatever these functions round to. \<open>machine_Length w v\<close> is the value
  computed for the vector whose components are, before rounding, those of \<open>v\<close>.
\<close>

datatype error = NullPointer

record CVector3 =
  fX :: real
  fY :: real
  fZ :: real

record CControlState =
  usingEnterExitVehicle :: bool
  usingHorn :: bool

text \<open>The tasks of the ped task manager that the file inspects, with the constructor
  arguments the file computes (vehicle, door or exit mode, flags).\<close>

datatype Task =
    TASK_COMPLEX_NEW_GET_IN_VEHICLE nat int nat
  | TASK_COMPLEX_NEW_EXIT_VEHICLE nat int
  | TASK_COMPLEX_DIE
  | TASK_OTHER

datatype VehicleEnterExitType =
    VEHICLE_ENTRY_REQUEST
  | VEHICLE_ENTRY_COMPLETE
  | VEHICLE_ENTRY_CANCELLED
  | VEHICLE_EXIT_REQUEST
  | VEHICLE_EXIT_COMPLETE
  | VEHICLE_EXIT_FORCEFUL

text \<open>An RPC as written into the bit stream: player id, kind, vehicle id and, for the
  entry messages, the seat.\<close>

datatype RPC =
    RPC_VehicleEnterExit nat VehicleEnterExitType nat "8 word option"
  | RPC_ScriptingVehicleDeath nat

datatype eExitVehicleMode = EXIT_VEHICLE_NORMAL | EXIT_VEHICLE_JACKED

record InterpPos =
  vecTarget :: CVector3
  vecError :: CVector3
  ulStartTime :: "32 word"
  ulFinishTime :: "32 word"
  fLastAlpha :: real

record VehicleEnterExit =
  bEntering :: bool
  pVehicle :: "nat option"
  byteSeatId :: "8 word"
  bExiting :: bool
  bRequesting :: bool

text \<open>The game's ped behind \<open>m_pPlayerPed\<close>: what the natives and the \<open>CIVPed\<close> accessors
  used by the file read and write.\<close>

record PlayerPed =
  pedPosition :: CVector3
  pedHealth :: "32 word"
  pedArmour :: "32 word"
  pedIsInVehicle :: bool
  pedCurrentVehicle :: "nat option"
  pedPrimaryTask :: "Task option"
  pedEventResponseTask :: "Task option"
  pedInterior :: "32 word"
  pedEntity :: nat
  pedLastDamageEntity :: "nat option"
  pedCurrentWeapon :: nat

record CNetworkPlayer =
  m_bIsLocalPlayer :: bool
  m_playerId :: nat
  m_bSpawned :: bool
  m_pVehicle :: "nat option"
  m_byteVehicleSeatId :: "8 word"
  m_bHealthLocked :: bool
  m_uiLockedHealth :: "32 word"
  m_bArmourLocked :: bool
  m_uiLockedArmour :: "32 word"
  m_interp :: InterpPos
  m_vehicleEnterExit :: VehicleEnterExit
  m_previousControlState :: CControlState
  m_currentControlState :: CControlState
  m_bVehicleDeathCheck :: bool
  m_pPlayerPed :: PlayerPed

text \<open>
  Modelled from the spec: \<open>CNetworkVehicle\<close> is declared outside this file. The spec's
  VehicleEntity holds an occupant table keyed by seat index (driver = 0, passengers =
  1..N); the other fields are the values returned by the getters the file calls.
  \<open>vGameEntity\<close> is the address of the game entity (\<open>GetGameVehicle()->GetEntity()\<close>),
  which differs from the address of the \<open>CNetworkVehicle\<close> object itself (the index of
  the store).
\<close>

record CNetworkVehicle =
  vVehicleId :: nat
  vStreamedIn :: bool
  vSpawned :: bool
  vDoorLockState :: "32 word"
  vNetworkVehicle :: bool
  vPosition :: CVector3
  vMoveSpeed :: CVector3
  vModelId :: int
  vHealth :: "32 word"
  vPetrolTankHealth :: real
  vDamageable :: bool
  vOccupants :: "nat \<Rightarrow> nat option"
  vMaxPassengers :: "8 word"
  vGameEntity :: nat
  vCarDead :: bool

record World =
  self :: CNetworkPlayer
  vehicles :: "nat \<Rightarrow> CNetworkVehicle"
  streamedVehicles :: "nat list"
  players :: "nat \<Rightarrow> CNetworkPlayer option"
  sentRPCs :: "RPC list"
  logFile :: "string list"
  clock :: "32 word"
  inputState :: bool
  controlsDisabled :: bool
  padControlState :: CControlState
  localPlayerInterior :: "32 word"
  taskAllocated :: bool
  machine_Length :: "CVector3 \<Rightarrow> real"
  machine_Distance3D :: "CVector3 \<Rightarrow> CVector3 \<Rightarrow> real"

subsection \<open>Vectors and \<open>Math\<close>\<close>

definition CVector3_zero :: CVector3 where
  "CVector3_zero = \<lparr>fX = 0, fY = 0, fZ = 0\<rparr>"

definition vec_add :: "CVector3 \<Rightarrow> CVector3 \<Rightarrow> CVector3" where
  "vec_add a b = \<lparr>fX = fX a + fX b, fY = fY a + fY b, fZ = fZ a + fZ b\<rparr>"

definition vec_sub :: "CVector3 \<Rightarrow> CVector3 \<Rightarrow> CVector3" where
  "vec_sub a b = \<lparr>fX = fX a - fX b, fY = fY a - fY b, fZ = fZ a - fZ b\<rparr>"

definition vec_scale :: "CVector3 \<Rightarrow> real \<Rightarrow> CVector3" where
  "vec_scale a k = \<lparr>fX = fX a * k, fY = fY a * k, fZ = fZ a * k\<rparr>"

text \<open>Modelled from the spec: \<open>CVector3::Length\<close> and
  \<open>Math::GetDistanceBetweenPoints3D\<close> are declared outside this file; the spec speaks of
  the 3D distance between two positions. These are the exact length and distance; the
  methods use the values the machine computes (\<open>machine_Length\<close>,
  \<open>machine_Distance3D\<close>), which the scenarios below set to the exact ones where the
  exact result is a single-precision number.\<close>

definition Length :: "CVector3 \<Rightarrow> real" where
  "Length v = sqrt (fX v * fX v + fY v * fY v + fZ v * fZ v)"

definition GetDistanceBetweenPoints3D :: "CVector3 \<Rightarrow> CVector3 \<Rightarrow> real" where
  "GetDistanceBetweenPoints3D a b = Length (vec_sub a b)"

text \<open>Modelled from the spec: \<open>Math::Unlerp\<close>, \<open>Math::Clamp\<close> and \<open>Math::Lerp\<close> are
  declared outside this file. The spec gives
  \<open>alpha = clamp((now - start) / (deadline - start), 0, 1)\<close> and "that proportional slice
  of the stored error vector". The spec does not say what \<open>Unlerp\<close> returns when the
  deadline equals the start; no theorem below depends on that case.\<close>

definition Unlerp :: "32 word \<Rightarrow> 32 word \<Rightarrow> 32 word \<Rightarrow> real" where
  "Unlerp from pos to =
     (real (unat pos) - real (unat from)) / (real (unat to) - real (unat from))"

definition Clamp :: "real \<Rightarrow> real \<Rightarrow> real \<Rightarrow> real" where
  "Clamp lo a hi = (if a < lo then lo else if a > hi then hi else a)"

definition Lerp :: "CVector3 \<Rightarrow> real \<Rightarrow> CVector3 \<Rightarrow> CVector3" where
  "Lerp start fAlpha end = vec_add (vec_scale (vec_sub end start) fAlpha) start"

subsection \<open>Access to the parts of the world\<close>

definition ped :: "World \<Rightarrow> PlayerPed" where
  "ped w = m_pPlayerPed (self w)"

definition interp :: "World \<Rightarrow> InterpPos" where
  "interp w = m_interp (self w)"

definition vee :: "World \<Rightarrow> VehicleEnterExit" where
  "vee w = m_vehicleEnterExit (self w)"

definition upd_self :: "(CNetworkPlayer \<Rightarrow> CNetworkPlayer) \<Rightarrow> World \<Rightarrow> World" where
  "upd_self f w = w\<lparr>self := f (self w)\<rparr>"

definition upd_ped :: "(PlayerPed \<Rightarrow> PlayerPed) \<Rightarrow> World \<Rightarrow> World" where
  "upd_ped f w = upd_self (\<lambda>p. p\<lparr>m_pPlayerPed := f (m_pPlayerPed p)\<rparr>) w"

definition upd_interp :: "(InterpPos \<Rightarrow> InterpPos) \<Rightarrow> World \<Rightarrow> World" where
  "upd_interp f w = upd_self (\<lambda>p. p\<lparr>m_interp := f (m_interp p)\<rparr>) w"

definition upd_vee :: "(VehicleEnterExit \<Rightarrow> VehicleEnterExit) \<Rightarrow> World \<Rightarrow> World" where
  "upd_vee f w = upd_self (\<lambda>p. p\<lparr>m_vehicleEnterExit := f (m_vehicleEnterExit p)\<rparr>) w"

definition upd_vehicle :: "nat \<Rightarrow> (CNetworkVehicle \<Rightarrow> CNetworkVehicle) \<Rightarrow> World \<Rightarrow> World" where
  "upd_vehicle v f w = w\<lparr>vehicles := (vehicles w)(v := f (vehicles w v))\<rparr>"

definition Printf :: "string \<Rightarrow> World \<Rightarrow> World" where
  "Printf msg w = w\<lparr>logFile := logFile w @ [msg]\<rparr>"

definition RPC_send :: "RPC \<Rightarrow> World \<Rightarrow> World" where
  "RPC_send m w = w\<lparr>sentRPCs := sentRPCs w @ [m]\<rparr>"

subsection \<open>Inline members of the class declaration\<close>

text \<open>
  Modelled from the spec: the inline members \<open>IsSpawned\<close>, \<open>IsLocalPlayer\<close>,
  \<open>IsInVehicle\<close>, \<open>IsAPassenger\<close>, \<open>GetVehicle\<close>, \<open>HasVehicleEnterExit\<close> and
  \<open>HasTargetPosition\<close> live in the class declaration, which is not part of the sources.
  The spec calls \<open>m_pVehicle\<close> the "current vehicle occupancy reference (nullable)",
  seat 0 the driver, and says "deadline of 0 means no interpolation active"; the file's
  own comments read \<open>if(m_pVehicle)\<close> as "Are we in a vehicle?".
\<close>

definition IsSpawned :: "World \<Rightarrow> bool" where
  "IsSpawned w = m_bSpawned (self w)"

definition IsLocalPlayer :: "World \<Rightarrow> bool" where
  "IsLocalPlayer w = m_bIsLocalPlayer (self w)"

definition IsInVehicle :: "World \<Rightarrow> bool" where
  "IsInVehicle w = (m_pVehicle (self w) \<noteq> None)"

definition HasVehicleEnterExit :: "World \<Rightarrow> bool" where
  "HasVehicleEnterExit w = (bEntering (vee w) \<or> bExiting (vee w))"

definition HasTargetPosition :: "World \<Rightarrow> bool" where
  "HasTargetPosition w = (ulFinishTime (interp w) \<noteq> 0)"

definition player_IsInVehicle :: "CNetworkPlayer \<Rightarrow> bool" where
  "player_IsInVehicle p = (m_pVehicle p \<noteq> None)"

definition player_IsAPassenger :: "CNetworkPlayer \<Rightarrow> bool" where
  "player_IsAPassenger p = (m_pVehicle p \<noteq> None \<and> m_byteVehicleSeatId p \<noteq> 0)"

section \<open>Attributes: health, armour, interior\<close>

text \<open>\<open>pedCurrentVehicle\<close> is the address of the game vehicle the ped sits in
  (\<open>m_pPlayerPed->GetCurrentVehicle()\<close>).\<close>

definition InternalIsInVehicle :: "World \<Rightarrow> bool" where
  "InternalIsInVehicle w =
     (if IsSpawned w then pedIsInVehicle (ped w) \<and> pedCurrentVehicle (ped w) \<noteq> None
      else False)"

definition SetHealth :: "32 word \<Rightarrow> World \<Rightarrow> World" where
  "SetHealth uiHealth w =
     (let w1 = (if IsSpawned w then upd_ped (\<lambda>p. p\<lparr>pedHealth := uiHealth\<rparr>) w else w)
      in upd_self (\<lambda>p. p\<lparr>m_bHealthLocked := False\<rparr>) w1)"

definition LockHealth :: "32 word \<Rightarrow> World \<Rightarrow> World" where
  "LockHealth uiHealth w =
     (let w1 = SetHealth uiHealth w;
          w2 = upd_self (\<lambda>p. p\<lparr>m_uiLockedHealth := uiHealth\<rparr>) w1
      in upd_self (\<lambda>p. p\<lparr>m_bHealthLocked := True\<rparr>) w2)"

definition GetHealth :: "World \<Rightarrow> 32 word" where
  "GetHealth w =
     (if m_bHealthLocked (self w) then m_uiLockedHealth (self w)
      else if IsSpawned w then pedHealth (ped w)
      else 0)"

definition GetArmour :: "World \<Rightarrow> 32 word" where
  "GetArmour w =
     (if m_bArmourLocked (self w) then m_uiLockedArmour (self w)
      else if IsSpawned w then pedArmour (ped w)
      else 0)"

text \<open>\<open>Scripting::AddArmourToChar\<close> adds the given amount to the ped's armour; the
  amount is the unsigned difference, which wraps.\<close>

definition SetArmour :: "32 word \<Rightarrow> World \<Rightarrow> World" where
  "SetArmour uiArmour w =
     (let w1 = (if IsSpawned w
                then upd_ped (\<lambda>p. p\<lparr>pedArmour := pedArmour p + (uiArmour - GetArmour w)\<rparr>) w
                else w)
      in upd_self (\<lambda>p. p\<lparr>m_bArmourLocked := False\<rparr>) w1)"

definition LockArmour :: "32 word \<Rightarrow> World \<Rightarrow> World" where
  "LockArmour uiArmour w =
     (let w1 = SetArmour uiArmour w;
          w2 = upd_self (\<lambda>p. p\<lparr>m_uiLockedArmour := uiArmour\<rparr>) w1
      in upd_self (\<lambda>p. p\<lparr>m_bArmourLocked := True\<rparr>) w2)"

definition GetInterior :: "World \<Rightarrow> 32 word" where
  "GetInterior w = (if IsSpawned w then pedInterior (ped w) else 0)"

definition SetInterior :: "32 word \<Rightarrow> World \<Rightarrow> World" where
  "SetInterior uiInterior w =
     (if IsSpawned w \<and> GetInterior w \<noteq> uiInterior
      then upd_ped (\<lambda>p. p\<lparr>pedInterior := uiInterior\<rparr>) w
      else w)"

section \<open>Position and interpolation\<close>

definition RemoveTargetPosition :: "World \<Rightarrow> World" where
  "RemoveTargetPosition w = upd_interp (\<lambda>i. i\<lparr>ulFinishTime := 0\<rparr>) w"

definition ResetInterpolation :: "World \<Rightarrow> World" where
  "ResetInterpolation w = RemoveTargetPosition w"

definition SetPosition :: "CVector3 \<Rightarrow> bool \<Rightarrow> World \<Rightarrow> World" where
  "SetPosition vecPosition bResetInterpolation w =
     (let w1 =
        (if IsSpawned w then
           (if \<not> InternalIsInVehicle w \<and> \<not> HasVehicleEnterExit w then
              (let w2 = upd_ped (\<lambda>p. p\<lparr>pedPosition := vecPosition\<rparr>) w
               in if \<not> IsLocalPlayer w2 then
                    (let uiLocalPlayerInterior = localPlayerInterior w2
                     in if GetInterior w2 \<noteq> uiLocalPlayerInterior
                        then SetInterior uiLocalPlayerInterior w2
                        else w2)
                  else w2)
            else w)
         else w)
      in if bResetInterpolation then RemoveTargetPosition w1 else w1)"

definition GetPosition :: "World \<Rightarrow> CVector3" where
  "GetPosition w =
     (if IsSpawned w then
        (case m_pVehicle (self w) of
           Some v \<Rightarrow> vPosition (vehicles w v)
         | None \<Rightarrow> pedPosition (ped w))
      else CVector3_zero)"

definition UpdateTargetPosition :: "World \<Rightarrow> World" where
  "UpdateTargetPosition w =
     (if HasTargetPosition w then
        (let ulCurrentTime = clock w;
             vecCurrentPosition = GetPosition w;
             fAlpha0 = Unlerp (ulStartTime (interp w)) ulCurrentTime (ulFinishTime (interp w));
             fAlpha = Clamp 0 fAlpha0 1;
             fCurrentAlpha = fAlpha - fLastAlpha (interp w);
             w1 = upd_interp (\<lambda>i. i\<lparr>fLastAlpha := fAlpha\<rparr>) w;
             vecCompensation = Lerp CVector3_zero fCurrentAlpha (vecError (interp w1));
             w2 = (if fAlpha = 1 then upd_interp (\<lambda>i. i\<lparr>ulFinishTime := 0\<rparr>) w1 else w1);
             vecNewPosition = vec_add vecCurrentPosition vecCompensation
         in if machine_Length w (vec_sub vecCurrentPosition (vecTarget (interp w2))) > 5
            then SetPosition (vecTarget (interp w2)) False
                   (upd_interp (\<lambda>i. i\<lparr>ulFinishTime := 0\<rparr>) w2)
            else SetPosition vecNewPosition False w2)
      else w)"

definition Interpolate :: "World \<Rightarrow> World" where
  "Interpolate w = UpdateTargetPosition w"

definition SetTargetPosition :: "CVector3 \<Rightarrow> 32 word \<Rightarrow> World \<Rightarrow> World" where
  "SetTargetPosition vecPosition ulDelay w =
     (if IsSpawned w then
        (let w1 = UpdateTargetPosition w;
             vecCurrentPosition = GetPosition w1;
             ulTime = clock w1
         in upd_interp (\<lambda>i. i\<lparr>vecTarget := vecPosition,
                               vecError := vec_sub vecPosition vecCurrentPosition,
                               ulStartTime := ulTime,
                               ulFinishTime := ulTime + ulDelay,
                               fLastAlpha := 0\<rparr>) w1)
      else w)"

section \<open>Vehicle entry and exit\<close>

text \<open>
  Modelled from the spec: the \<open>CNetworkVehicle\<close> members \<open>GetDriver\<close>, \<open>GetPassenger\<close>,
  \<open>SetOccupant\<close> and \<open>SetDriver\<close> are declared outside this file. Following the spec's
  occupant table (driver = seat 0, passengers = seats 1..N), passenger \<open>i\<close> is seat
  \<open>i + 1\<close>. An occupant is recorded by its player id.
\<close>

definition GetDriver :: "CNetworkVehicle \<Rightarrow> nat option" where
  "GetDriver v = vOccupants v 0"

definition GetPassenger :: "CNetworkVehicle \<Rightarrow> nat \<Rightarrow> nat option" where
  "GetPassenger v i = vOccupants v (i + 1)"

definition SetOccupant :: "8 word \<Rightarrow> nat option \<Rightarrow> CNetworkVehicle \<Rightarrow> CNetworkVehicle" where
  "SetOccupant seat occupant v = v\<lparr>vOccupants := (vOccupants v)(unat seat := occupant)\<rparr>"

definition SetDriver :: "nat option \<Rightarrow> CNetworkVehicle \<Rightarrow> CNetworkVehicle" where
  "SetDriver occupant v = v\<lparr>vOccupants := (vOccupants v)(0 := occupant)\<rparr>"

definition SetDamageable :: "bool \<Rightarrow> CNetworkVehicle \<Rightarrow> CNetworkVehicle" where
  "SetDamageable b v = v\<lparr>vDamageable := b\<rparr>"

text \<open>The streamer is external: \<open>ForceStreamIn\<close> is taken to stream the vehicle in.\<close>

definition ForceStreamIn :: "nat \<Rightarrow> World \<Rightarrow> World" where
  "ForceStreamIn v w =
     (upd_vehicle v (\<lambda>x. x\<lparr>vStreamedIn := True\<rparr>) w)
       \<lparr>streamedVehicles :=
          (if v \<in> set (streamedVehicles w) then streamedVehicles w
           else streamedVehicles w @ [v])\<rparr>"

definition IsGettingInToAVehicle :: "World \<Rightarrow> bool" where
  "IsGettingInToAVehicle w =
     (if IsSpawned w then
        (case pedPrimaryTask (ped w) of
           Some (TASK_COMPLEX_NEW_GET_IN_VEHICLE _ _ _) \<Rightarrow> True
         | _ \<Rightarrow> False)
      else False)"

definition IsGettingOutOfAVehicle :: "World \<Rightarrow> bool" where
  "IsGettingOutOfAVehicle w =
     (if IsSpawned w then
        (case pedPrimaryTask (ped w) of
           Some (TASK_COMPLEX_NEW_EXIT_VEHICLE _ _) \<Rightarrow> True
         | _ \<Rightarrow> False)
      else False)"

definition IsDying :: "World \<Rightarrow> bool" where
  "IsDying w =
     (if IsSpawned w then
        (case pedEventResponseTask (ped w) of
           Some TASK_COMPLEX_DIE \<Rightarrow> True
         | _ \<Rightarrow> False)
      else False)"

definition IsDead :: "World \<Rightarrow> bool" where
  "IsDead w = (if IsSpawned w then IsDying w else False)"

definition ClearVehicleEntryTask :: "World \<Rightarrow> World" where
  "ClearVehicleEntryTask w =
     (if IsSpawned w then
        (case pedPrimaryTask (ped w) of
           Some (TASK_COMPLEX_NEW_GET_IN_VEHICLE _ _ _) \<Rightarrow>
             upd_ped (\<lambda>p. p\<lparr>pedPrimaryTask := None\<rparr>) w
         | _ \<Rightarrow> w)
      else w)"

definition ClearVehicleExitTask :: "World \<Rightarrow> World" where
  "ClearVehicleExitTask w =
     (if IsSpawned w then
        (case pedPrimaryTask (ped w) of
           Some (TASK_COMPLEX_NEW_EXIT_VEHICLE _ _) \<Rightarrow>
             upd_ped (\<lambda>p. p\<lparr>pedPrimaryTask := None\<rparr>) w
         | _ \<Rightarrow> w)
      else w)"

definition ResetVehicleEnterExit :: "World \<Rightarrow> World" where
  "ResetVehicleEnterExit w =
     (let w1 = upd_vee (\<lambda>e. e\<lparr>bEntering := False, pVehicle := None, byteSeatId := 0,
                               bExiting := False, bRequesting := False\<rparr>) w;
          w2 = ClearVehicleEntryTask w1
      in ClearVehicleExitTask w2)"

text \<open>\<open>SetAsPedTask\<close> at \<open>TASK_PRIORITY_PRIMARY\<close>, done only when the task object was
  allocated (\<open>if(pTask)\<close>).\<close>

definition SetAsPedTask_primary :: "Task \<Rightarrow> World \<Rightarrow> World" where
  "SetAsPedTask_primary t w =
     (if taskAllocated w then upd_ped (\<lambda>p. p\<lparr>pedPrimaryTask := Some t\<rparr>) w else w)"

subsection \<open>\<open>GetClosestVehicle\<close>\<close>

text \<open>The loop over the streamed-in vehicles, carrying \<open>fCurrent\<close> and
  \<open>pClosestVehicle\<close>.\<close>

fun closest_scan :: "World \<Rightarrow> CVector3 \<Rightarrow> nat list \<Rightarrow> real \<times> nat option \<Rightarrow> real \<times> nat option" where
  "closest_scan w vecPlayerPos [] acc = acc"
| "closest_scan w vecPlayerPos (pTestVehicle # rest) (fCurrent, pClosestVehicle) =
     (let vecVehiclePos = vPosition (vehicles w pTestVehicle);
          fDistance = machine_Distance3D w vecPlayerPos vecVehiclePos
      in if fDistance < fCurrent
         then closest_scan w vecPlayerPos rest (fDistance, Some pTestVehicle)
         else closest_scan w vecPlayerPos rest (fCurrent, pClosestVehicle))"

text \<open>The loop over the passenger seats \<open>i = 0 .. GetMaxPassengers() - 1\<close>; the result is
  \<open>byteTestSeatId\<close>, which stays 0 when no seat is free.\<close>

fun seat_scan :: "CNetworkVehicle \<Rightarrow> nat list \<Rightarrow> 8 word" where
  "seat_scan v [] = 0"
| "seat_scan v (i # rest) =
     (if GetPassenger v i = None then of_nat i + 1 else seat_scan v rest)"

definition GetClosestVehicle :: "bool \<Rightarrow> World \<Rightarrow> (nat \<times> 8 word) option" where
  "GetClosestVehicle bPassenger w =
     (if IsSpawned w then
        (case snd (closest_scan w (GetPosition w) (streamedVehicles w) (6, None)) of
           None \<Rightarrow> None
         | Some pClosestVehicle \<Rightarrow>
             (if bPassenger then
                (let byteTestSeatId =
                       seat_scan (vehicles w pClosestVehicle)
                         [0 ..< unat (vMaxPassengers (vehicles w pClosestVehicle))]
                 in if byteTestSeatId = 0 then None
                    else Some (pClosestVehicle, byteTestSeatId))
              else Some (pClosestVehicle, 0)))
      else None)"

subsection \<open>\<open>EnterVehicle\<close> and \<open>ExitVehicle\<close>\<close>

definition EnterVehicle :: "nat option \<Rightarrow> 8 word \<Rightarrow> World \<Rightarrow> World" where
  "EnterVehicle pVeh seat w =
     (if IsSpawned w then
        (case pVeh of
           None \<Rightarrow> w
         | Some v \<Rightarrow>
            (let w1 = (if \<not> vStreamedIn (vehicles w v)
                       then (if IsLocalPlayer w then ForceStreamIn v w else w)
                       else w)
             in if IsInVehicle w1 then w1
                else
                  (let w2 = Printf ''[DEBUG] Try to enter vehicle %d with door lock state %d'' w1
                   in if vStreamedIn (vehicles w2 v) \<and> vDoorLockState (vehicles w2 v) = 0
                      then
                        (let iUnknown = (if seat = 0 then - 7
                                         else if seat = 1 then 2
                                         else if seat = 2 then 1
                                         else if seat = 3 then 3
                                         else - 4);
                             uiUnknown = (if seat > 0 then 0x200000 else 0);
                             w3 = SetAsPedTask_primary
                                    (TASK_COMPLEX_NEW_GET_IN_VEHICLE v iUnknown uiUnknown) w2;
                             w4 = upd_vee (\<lambda>e. e\<lparr>bEntering := True, pVehicle := Some v,
                                                    byteSeatId := seat\<rparr>) w3
                         in ResetInterpolation w4)
                      else w2)))
      else w)"

definition truck_models :: "int list" where
  "truck_models = [2, 4, 5, 7, 8, 10, 11, 31, 32, 49, 50, 51, 52, 53, 55, 56, 60, 66, 73,
                   85, 86, 94, 104]"

definition exit_mode :: "eExitVehicleMode \<Rightarrow> CVector3 \<Rightarrow> int \<Rightarrow> int" where
  "exit_mode exitmode vecMoveSpeed modelId =
     (if exitmode = EXIT_VEHICLE_NORMAL then
        (if fX vecMoveSpeed < - 10 \<or> fX vecMoveSpeed > 10
            \<or> fY vecMoveSpeed < - 10 \<or> fY vecMoveSpeed > 10
         then (if modelId \<in> set truck_models then 0x40B
               else if modelId \<noteq> 12 \<and> modelId < 166 then 0x100E
               else 0xF)
         else 0xF)
      else 0x9C4)"

text \<open>The block after the \<open>if(m_pVehicle) ... else ...\<close> of \<open>ExitVehicle\<close> reads
  \<open>m_pVehicle->GetHealth()\<close> without a check.\<close>

definition ExitVehicle :: "eExitVehicleMode \<Rightarrow> World \<Rightarrow> error + World" where
  "ExitVehicle exitmode w =
     (if IsSpawned w then
        (let w1 =
           (case m_pVehicle (self w) of
              Some v \<Rightarrow>
                (let iExitMode = exit_mode exitmode (vMoveSpeed (vehicles w v))
                                   (vModelId (vehicles w v));
                     wa = SetAsPedTask_primary (TASK_COMPLEX_NEW_EXIT_VEHICLE v iExitMode) w
                 in upd_vee (\<lambda>e. e\<lparr>bExiting := True\<rparr>) wa)
            | None \<Rightarrow>
                (if HasVehicleEnterExit w then ClearVehicleEntryTask w else w))
         in case m_pVehicle (self w1) of
              None \<Rightarrow> Inl NullPointer
            | Some v \<Rightarrow>
                (let w2 =
                   (if sint (vHealth (vehicles w1 v)) < 0
                       \<or> vPetrolTankHealth (vehicles w1 v) < 0
                    then
                      (let wb = upd_self (\<lambda>p. p\<lparr>m_bVehicleDeathCheck := True\<rparr>) w1
                       in if vCarDead (vehicles wb v)
                          then upd_self (\<lambda>p. p\<lparr>m_bVehicleDeathCheck := False\<rparr>)
                                 (RPC_send (RPC_ScriptingVehicleDeath
                                              (vVehicleId (vehicles wb v))) wb)
                          else wb)
                    else w1);
                     w3 = (case m_pVehicle (self w2) of
                             Some u \<Rightarrow> upd_vehicle u (SetDriver None) w2
                           | None \<Rightarrow> w2)
                 in Inr (ResetInterpolation w3)))
      else Inr w)"

subsection \<open>\<open>PutInVehicle\<close> and \<open>RemoveFromVehicle\<close>\<close>

text \<open>The two \<open>CIVTaskSimpleCarSetPed...\<close> tasks are processed at once by the game:
  they put the ped into the game vehicle, or take it out.\<close>

definition InternalPutInVehicle :: "nat \<Rightarrow> 8 word \<Rightarrow> World \<Rightarrow> World" where
  "InternalPutInVehicle v seat w =
     (if IsSpawned w \<and> \<not> InternalIsInVehicle w then
        (if taskAllocated w
         then upd_ped (\<lambda>p. p\<lparr>pedIsInVehicle := True,
                               pedCurrentVehicle := Some (vGameEntity (vehicles w v))\<rparr>) w
         else w)
      else w)"

definition InternalRemoveFromVehicle :: "World \<Rightarrow> World" where
  "InternalRemoveFromVehicle w =
     (if IsSpawned w then
        (case m_pVehicle (self w) of
           Some v \<Rightarrow>
             (let w1 = upd_vehicle v (SetDamageable False) w
              in if taskAllocated w1
                 then upd_ped (\<lambda>p. p\<lparr>pedIsInVehicle := False, pedCurrentVehicle := None\<rparr>) w1
                 else w1)
         | None \<Rightarrow> w)
      else w)"

definition RemoveFromVehicle :: "World \<Rightarrow> World" where
  "RemoveFromVehicle w =
     (if IsSpawned w then
        (case m_pVehicle (self w) of
           Some v \<Rightarrow>
             (let w1 = InternalRemoveFromVehicle w;
                  w2 = upd_vehicle v (SetOccupant (byteSeatId (vee w1)) None) w1;
                  w3 = upd_self (\<lambda>p. p\<lparr>m_pVehicle := None\<rparr>) w2;
                  w4 = upd_self (\<lambda>p. p\<lparr>m_byteVehicleSeatId := 0\<rparr>) w3
              in ResetVehicleEnterExit w4)
         | None \<Rightarrow> w)
      else w)"

definition PutInVehicle :: "nat option \<Rightarrow> 8 word \<Rightarrow> World \<Rightarrow> World" where
  "PutInVehicle pVeh seat w =
     (if IsSpawned w then
        (case pVeh of
           None \<Rightarrow> w
         | Some v \<Rightarrow>
            (if \<not> vStreamedIn (vehicles w v) \<and> \<not> IsLocalPlayer w then w
             else
               (let w1 = (if \<not> vStreamedIn (vehicles w v) then ForceStreamIn v w else w);
                    w2 = (if IsInVehicle w1 then RemoveFromVehicle w1 else w1);
                    w3 = (if vStreamedIn (vehicles w2 v)
                          then InternalPutInVehicle v seat w2 else w2);
                    w4 = ResetVehicleEnterExit w3;
                    w5 = upd_self (\<lambda>p. p\<lparr>m_pVehicle := Some v\<rparr>) w4;
                    w6 = upd_vehicle v (SetDamageable True) w5;
                    w7 = upd_self (\<lambda>p. p\<lparr>m_byteVehicleSeatId := seat\<rparr>) w6;
                    w8 = upd_vehicle v (SetOccupant seat (Some (m_playerId (self w7)))) w7
                in if vNetworkVehicle (vehicles w8 v)
                   then RPC_send (RPC_VehicleEnterExit (m_playerId (self w8))
                                    VEHICLE_ENTRY_COMPLETE (vVehicleId (vehicles w8 v))
                                    (Some (m_byteVehicleSeatId (self w8)))) w8
                   else w8)))
      else w)"

subsection \<open>\<open>CheckVehicleEntryExitKey\<close>\<close>

definition log_name :: "string \<Rightarrow> string \<Rightarrow> World \<Rightarrow> World" where
  "log_name localMsg remoteMsg w =
     (if IsLocalPlayer w then Printf localMsg w else Printf remoteMsg w)"

definition exit_key_pressed :: "World \<Rightarrow> error + World" where
  "exit_key_pressed w =
     (if \<not> bRequesting (vee w) \<and> IsInVehicle w \<and> \<not> bExiting (vee w) then
        (let w1 = log_name ''HandleVehicleExitKey(LocalPlayer)'' ''HandleVehicleExitKey(%d)'' w
         in if \<not> bRequesting (vee w1) then
              (case m_pVehicle (self w1) of
                 None \<Rightarrow> Inl NullPointer
               | Some v \<Rightarrow>
                   (if vNetworkVehicle (vehicles w1 v) then
                      Inr (upd_vee (\<lambda>e. e\<lparr>bRequesting := True\<rparr>)
                             (RPC_send (RPC_VehicleEnterExit (m_playerId (self w1))
                                          VEHICLE_EXIT_REQUEST (vVehicleId (vehicles w1 v)) None)
                                w1))
                    else ExitVehicle EXIT_VEHICLE_NORMAL w1))
            else Inr (Printf ''Already requesting vehicle entry/exit!'' w1))
      else Inr w)"

definition entry_key_released :: "bool \<Rightarrow> World \<Rightarrow> error + World" where
  "entry_key_released bHornKeyReleased w =
     (let w1 = log_name ''HandleVehicleEntryKey(LocalPlayer)'' ''HandleVehicleEntryKey(%d)'' w
      in if \<not> bRequesting (vee w1) then
           (if \<not> IsInVehicle w1 \<and> \<not> bEntering (vee w1) then
              (case GetClosestVehicle bHornKeyReleased w1 of
                 None \<Rightarrow> Inr w1
               | Some (v, seat) \<Rightarrow>
                   (if vSpawned (vehicles w1 v) then
                      (let w2 = log_name ''HandleVehicleEntry(LocalPlayer, %d, %d, %d)''
                                  ''HandleVehicleEntry(%d, %d, %d, %d)'' w1
                       in if vDoorLockState (vehicles w2 v) > 0 then
                            Inr (upd_vee (\<lambda>e. e\<lparr>bEntering := False\<rparr>)
                                   (upd_vee (\<lambda>e. e\<lparr>bRequesting := False\<rparr>) w2))
                          else if vNetworkVehicle (vehicles w2 v) then
                            Inr (upd_vee (\<lambda>e. e\<lparr>bRequesting := True\<rparr>)
                                   (RPC_send (RPC_VehicleEnterExit (m_playerId (self w2))
                                                VEHICLE_ENTRY_REQUEST (vVehicleId (vehicles w2 v))
                                                (Some seat)) w2))
                          else Inr (EnterVehicle (Some v) seat w2))
                    else Inr w1))
            else Inr w1)
         else Inr (Printf ''Already requesting vehicle entry/exit!'' w1))"

definition CheckVehicleEntryExitKey :: "World \<Rightarrow> error + World" where
  "CheckVehicleEntryExitKey w =
     (if IsSpawned w \<and> inputState w \<and> \<not> controlsDisabled w then
        (if usingEnterExitVehicle (m_currentControlState (self w))
            \<and> \<not> usingEnterExitVehicle (m_previousControlState (self w))
         then exit_key_pressed w
         else
           (let bEnterExitVehicleKeyReleased =
                  (usingEnterExitVehicle (m_previousControlState (self w))
                   \<and> \<not> usingEnterExitVehicle (m_currentControlState (self w)));
                bHornKeyReleased =
                  (usingHorn (m_previousControlState (self w))
                   \<and> \<not> usingHorn (m_currentControlState (self w)))
            in if bEnterExitVehicleKeyReleased \<or> bHornKeyReleased
               then entry_key_released bHornKeyReleased w
               else Inr w))
      else Inr w)"

subsection \<open>\<open>ProcessVehicleEntryExit\<close>\<close>

text \<open>The branch taken while the ped is inside a game vehicle: completion of an entry.\<close>

definition process_entry_complete :: "World \<Rightarrow> error + World" where
  "process_entry_complete w =
     (if bEntering (vee w) then
        (if \<not> IsGettingInToAVehicle w then
           (case pVehicle (vee w) of
              None \<Rightarrow> Inl NullPointer
            | Some v \<Rightarrow>
                (let w1 = upd_vee (\<lambda>e. e\<lparr>bEntering := False\<rparr>) w;
                     w2 = upd_self (\<lambda>p. p\<lparr>m_pVehicle := Some v\<rparr>) w1;
                     w3 = upd_vehicle v (SetDamageable True) w2;
                     w4 = upd_self (\<lambda>p. p\<lparr>m_byteVehicleSeatId := byteSeatId (vee w3)\<rparr>) w3;
                     w5 = upd_vehicle v (SetOccupant (byteSeatId (vee w4))
                                           (Some (m_playerId (self w4)))) w4;
                     w6 = upd_vee (\<lambda>e. e\<lparr>pVehicle := None\<rparr>) w5;
                     w7 = (if vNetworkVehicle (vehicles w6 v)
                           then RPC_send (RPC_VehicleEnterExit (m_playerId (self w6))
                                            VEHICLE_ENTRY_COMPLETE (vVehicleId (vehicles w6 v))
                                            (Some (m_byteVehicleSeatId (self w6)))) w6
                           else w6)
                 in Inr (log_name ''VehicleEntryComplete(LocalPlayer)''
                           ''VehicleEntryComplete(%d)'' w7)))
         else Inr w)
      else Inr w)"

text \<open>Outside a game vehicle, first the entry flag: cancellation for the local player,
  restart for a remote one, removal of a stray entry task.\<close>

definition process_entry_aborted :: "World \<Rightarrow> error + World" where
  "process_entry_aborted w =
     (if bEntering (vee w) then
        (if \<not> IsGettingInToAVehicle w then
           (if IsLocalPlayer w then
              (case pVehicle (vee w) of
                 None \<Rightarrow> Inl NullPointer
               | Some v \<Rightarrow>
                   (let w1 =
                      (if vNetworkVehicle (vehicles w v) then
                         (let wa = upd_vehicle v (SetDamageable False) w;
                              wb = RPC_send (RPC_VehicleEnterExit (m_playerId (self wa))
                                               VEHICLE_ENTRY_CANCELLED (vVehicleId (vehicles wa v))
                                               (Some (m_byteVehicleSeatId (self wa)))) wa
                          in Printf ''VehicleEntryCancelled(LocalPlayer)'' wb)
                       else w)
                    in Inr (upd_vee (\<lambda>e. e\<lparr>bEntering := False, pVehicle := None\<rparr>) w1)))
            else Inr (Printf ''VehicleEntryRestarted(%d)''
                        (EnterVehicle (pVehicle (vee w)) (byteSeatId (vee w)) w)))
         else Inr w)
      else
        (if IsGettingInToAVehicle w
         then Inr (log_name ''VehicleEntryRemoved(LocalPlayer)'' ''VehicleEntryRemoved(%d)''
                     (ClearVehicleEntryTask w))
         else Inr w))"

text \<open>The vehicle is left: the occupant slot is released and the pointer reset.\<close>

definition leave_vehicle :: "nat \<Rightarrow> World \<Rightarrow> World" where
  "leave_vehicle v w =
     (let w1 = upd_vehicle v (SetOccupant (m_byteVehicleSeatId (self w)) None) w;
          w2 = upd_vehicle v (SetDamageable False) w1;
          w3 = upd_self (\<lambda>p. p\<lparr>m_pVehicle := None\<rparr>) w2
      in upd_self (\<lambda>p. p\<lparr>m_byteVehicleSeatId := 0\<rparr>) w3)"

text \<open>Then the exit flag: completion of an exit, removal of a stray exit task, and the
  forceful exit.\<close>

definition process_exit :: "World \<Rightarrow> error + World" where
  "process_exit w =
     (if bExiting (vee w) then
        (if \<not> IsGettingOutOfAVehicle w then
           (case m_pVehicle (self w) of
              None \<Rightarrow> Inl NullPointer
            | Some v \<Rightarrow>
                (let w1 = (if vNetworkVehicle (vehicles w v)
                           then RPC_send (RPC_VehicleEnterExit (m_playerId (self w))
                                            VEHICLE_EXIT_COMPLETE (vVehicleId (vehicles w v)) None) w
                           else w);
                     w2 = upd_vee (\<lambda>e. e\<lparr>bExiting := False\<rparr>) w1;
                     w3 = leave_vehicle v w2
                 in Inr (log_name ''VehicleExitComplete(LocalPlayer)''
                           ''VehicleExitComplete(%d)'' w3)))
         else Inr w)
      else
        (let w1 = (if IsGettingOutOfAVehicle w
                   then log_name ''VehicleExitRemoved(LocalPlayer)'' ''VehicleExitRemoved(%d)''
                          (ClearVehicleExitTask w)
                   else w)
         in case m_pVehicle (self w1) of
              Some v \<Rightarrow>
                (let w2 = (if vNetworkVehicle (vehicles w1 v)
                           then RPC_send (RPC_VehicleEnterExit (m_playerId (self w1))
                                            VEHICLE_EXIT_FORCEFUL (vVehicleId (vehicles w1 v)) None) w1
                           else w1);
                     w3 = leave_vehicle v w2
                 in Inr (log_name ''VehicleForcefulExit(LocalPlayer)''
                           ''VehicleForcefulExit(%d)'' w3))
            | None \<Rightarrow> Inr w1))"

definition ProcessVehicleEntryExit :: "World \<Rightarrow> error + World" where
  "ProcessVehicleEntryExit w =
     (if IsSpawned w then
        (if InternalIsInVehicle w then process_entry_complete w
         else
           (case process_entry_aborted w of
              Inl e \<Rightarrow> Inl e
            | Inr w1 \<Rightarrow> process_exit w1))
      else Inr w)"

section \<open>\<open>Kill\<close> and \<open>Pulse\<close>\<close>

text \<open>\<open>SetControlState\<close> hands the state to a pad (the game pad for the local player,
  the pad of the context data for a remote one, which is not modelled) and shifts the two
  snapshots.\<close>

definition SetControlState :: "CControlState \<Rightarrow> World \<Rightarrow> World" where
  "SetControlState controlState w =
     (let w1 = (if IsSpawned w \<and> IsLocalPlayer w
                then w\<lparr>padControlState := controlState\<rparr> else w);
          w2 = upd_self (\<lambda>p. p\<lparr>m_previousControlState := m_currentControlState p\<rparr>) w1
      in upd_self (\<lambda>p. p\<lparr>m_currentControlState := controlState\<rparr>) w2)"

definition CControlState_default :: CControlState where
  "CControlState_default = \<lparr>usingEnterExitVehicle = False, usingHorn = False\<rparr>"

definition Kill :: "bool \<Rightarrow> World \<Rightarrow> World" where
  "Kill bInstantly w =
     (if IsSpawned w \<and> \<not> IsDead w then
        (if \<not> bInstantly \<and> IsDying w then w
         else
           (let w1 = (if bInstantly then w
                      else if taskAllocated w
                      then upd_ped (\<lambda>p. p\<lparr>pedEventResponseTask := Some TASK_COMPLEX_DIE\<rparr>) w
                      else w);
                w2 = SetHealth 0 w1;
                w3 = SetArmour 0 w2;
                w4 = SetControlState CControlState_default w3;
                w5 = ResetVehicleEnterExit w4
            in ResetInterpolation w5))
      else w)"

definition vehicle_death_check :: "World \<Rightarrow> World" where
  "vehicle_death_check w =
     (if m_bVehicleDeathCheck (self w) then
        (case m_pVehicle (self w) of
           Some v \<Rightarrow>
             (if GetDriver (vehicles w v) = None then
                (if vCarDead (vehicles w v)
                 then upd_self (\<lambda>p. p\<lparr>m_bVehicleDeathCheck := False\<rparr>)
                        (RPC_send (RPC_ScriptingVehicleDeath (vVehicleId (vehicles w v))) w)
                 else w)
              else upd_self (\<lambda>p. p\<lparr>m_bVehicleDeathCheck := False\<rparr>) w)
         | None \<Rightarrow> upd_self (\<lambda>p. p\<lparr>m_bVehicleDeathCheck := False\<rparr>) w)
      else w)"

definition Pulse :: "World \<Rightarrow> error + World" where
  "Pulse w =
     (if IsSpawned w then
        (let w1 = (if IsLocalPlayer w
                   then upd_self (\<lambda>p. p\<lparr>m_currentControlState := padControlState w\<rparr>)
                          (upd_self (\<lambda>p. p\<lparr>m_previousControlState := m_currentControlState p\<rparr>) w)
                   else w);
             w2 = (if m_bHealthLocked (self w1)
                   then SetHealth (m_uiLockedHealth (self w1)) w1 else w1);
             w3 = (if m_bArmourLocked (self w2)
                   then SetArmour (m_uiLockedArmour (self w2)) w2 else w2)
         in case ProcessVehicleEntryExit w3 of
              Inl e \<Rightarrow> Inl e
            | Inr w4 \<Rightarrow>
                (if IsLocalPlayer w4 then
                   (case CheckVehicleEntryExitKey w4 of
                      Inl e \<Rightarrow> Inl e
                    | Inr w5 \<Rightarrow> Inr (vehicle_death_check w5))
                 else Inr (if \<not> IsInVehicle w4 then Interpolate w4 else w4)))
      else Inr w)"

section \<open>\<open>GetKillInfo\<close>\<close>

definition GetLastDamageEntity :: "World \<Rightarrow> nat option" where
  "GetLastDamageEntity w = (if IsSpawned w then pedLastDamageEntity (ped w) else None)"

definition player_GetCurrentWeapon :: "CNetworkPlayer \<Rightarrow> nat" where
  "player_GetCurrentWeapon p =
     (if m_bSpawned p then pedCurrentWeapon (m_pPlayerPed p) else 0)"

text \<open>
  The loop over the player ids, carrying \<open>(*playerId, *vehicleId, *weaponId)\<close>; a
  \<open>break\<close> ends the recursion. \<open>players w i\<close> is \<open>None\<close> when \<open>DoesExist(i)\<close> is false.
  The first test compares the last-damage entity with the address of the player's game
  ped; the second one compares it with \<open>(IVEntity *)pPlayer->GetVehicle()\<close>, the address
  of the \<open>CNetworkVehicle\<close> object (the index of the store), and writes \<open>i\<close> into
  \<open>*vehicleId\<close>.
\<close>

fun kill_scan_players :: "World \<Rightarrow> nat list \<Rightarrow> nat \<times> nat \<times> nat \<Rightarrow> nat \<times> nat \<times> nat" where
  "kill_scan_players w [] r = r"
| "kill_scan_players w (i # rest) (playerId, vehicleId, weaponId) =
     (case players w i of
        None \<Rightarrow> kill_scan_players w rest (playerId, vehicleId, weaponId)
      | Some pPlayer \<Rightarrow>
          (if m_bSpawned pPlayer then
             (if GetLastDamageEntity w = Some (pedEntity (m_pPlayerPed pPlayer))
              then (i, vehicleId, player_GetCurrentWeapon pPlayer)
              else if player_IsInVehicle pPlayer \<and> \<not> player_IsAPassenger pPlayer
                      \<and> GetLastDamageEntity w = m_pVehicle pPlayer
              then (i, i, player_GetCurrentWeapon pPlayer)
              else kill_scan_players w rest (playerId, vehicleId, weaponId))
           else kill_scan_players w rest (playerId, vehicleId, weaponId)))"

text \<open>The loop over the streamed-in vehicles, carrying \<open>*vehicleId\<close>.\<close>

fun kill_scan_vehicles :: "World \<Rightarrow> nat list \<Rightarrow> nat \<Rightarrow> nat" where
  "kill_scan_vehicles w [] vehicleId = vehicleId"
| "kill_scan_vehicles w (pVeh # rest) vehicleId =
     (if GetLastDamageEntity w = Some (vGameEntity (vehicles w pVeh))
      then vVehicleId (vehicles w pVeh)
      else kill_scan_vehicles w rest vehicleId)"

text \<open>\<open>MAX_PLAYERS\<close> and \<open>INVALID_ENTITY_ID\<close> are defined outside this file and are
  parameters here. The result is \<open>None\<close> when the method returns \<open>false\<close>.\<close>

definition GetKillInfo :: "nat \<Rightarrow> nat \<Rightarrow> World \<Rightarrow> (nat \<times> nat \<times> nat) option" where
  "GetKillInfo MAX_PLAYERS INVALID_ENTITY_ID w =
     (if IsSpawned w then
        (case kill_scan_players w [0 ..< MAX_PLAYERS]
                (INVALID_ENTITY_ID, INVALID_ENTITY_ID, INVALID_ENTITY_ID) of
           (playerId, vehicleId, weaponId) \<Rightarrow>
             (if playerId = INVALID_ENTITY_ID \<and> vehicleId = INVALID_ENTITY_ID
              then Some (playerId,
                         kill_scan_vehicles w (streamedVehicles w) vehicleId,
                         weaponId)
              else Some (playerId, vehicleId, weaponId)))
      else None)"

section \<open>Scenarios and auxiliary notions\<close>

text \<open>A spawned remote player on foot, with nothing pending, in a world whose vehicles
  are all parked, unlocked network vehicles with id 7.\<close>

definition ped_on_foot :: PlayerPed where
  "ped_on_foot = \<lparr>pedPosition = CVector3_zero, pedHealth = 200, pedArmour = 0,
     pedIsInVehicle = False, pedCurrentVehicle = None, pedPrimaryTask = None,
     pedEventResponseTask = None, pedInterior = 0, pedEntity = 1,
     pedLastDamageEntity = None, pedCurrentWeapon = 0\<rparr>"

definition interp_idle :: InterpPos where
  "interp_idle = \<lparr>vecTarget = CVector3_zero, vecError = CVector3_zero, ulStartTime = 0,
     ulFinishTime = 0, fLastAlpha = 0\<rparr>"

definition vee_reset :: VehicleEnterExit where
  "vee_reset = \<lparr>bEntering = False, pVehicle = None, byteSeatId = 0, bExiting = False,
     bRequesting = False\<rparr>"

definition player_on_foot :: CNetworkPlayer where
  "player_on_foot = \<lparr>m_bIsLocalPlayer = False, m_playerId = 0, m_bSpawned = True,
     m_pVehicle = None, m_byteVehicleSeatId = 0, m_bHealthLocked = False,
     m_uiLockedHealth = 0, m_bArmourLocked = False, m_uiLockedArmour = 0,
     m_interp = interp_idle, m_vehicleEnterExit = vee_reset,
     m_previousControlState = CControlState_default,
     m_currentControlState = CControlState_default, m_bVehicleDeathCheck = False,
     m_pPlayerPed = ped_on_foot\<rparr>"

definition vehicle_parked :: CNetworkVehicle where
  "vehicle_parked = \<lparr>vVehicleId = 7, vStreamedIn = True, vSpawned = True,
     vDoorLockState = 0, vNetworkVehicle = True, vPosition = CVector3_zero,
     vMoveSpeed = CVector3_zero, vModelId = 0, vHealth = 1000, vPetrolTankHealth = 1000,
     vDamageable = False, vOccupants = (\<lambda>_. None), vMaxPassengers = 3,
     vGameEntity = 200, vCarDead = False\<rparr>"

definition world_on_foot :: World where
  "world_on_foot = \<lparr>self = player_on_foot, vehicles = (\<lambda>_. vehicle_parked),
     streamedVehicles = [], players = (\<lambda>_. None), sentRPCs = [], logFile = [],
     clock = 0, inputState = True, controlsDisabled = False,
     padControlState = CControlState_default, localPlayerInterior = 0,
     taskAllocated = True, machine_Length = Length,
     machine_Distance3D = GetDistanceBetweenPoints3D\<rparr>"

text \<open>A write to the ped's health by the simulation, behind the player object's back.\<close>

definition external_health_write :: "32 word \<Rightarrow> World \<Rightarrow> World" where
  "external_health_write h w = upd_ped (\<lambda>p. p\<lparr>pedHealth := h\<rparr>) w"

text \<open>The same player just after releasing the enter/exit key, next to a streamed-in
  vehicle whose doors are locked.\<close>

definition world_key_released :: World where
  "world_key_released =
     (upd_self (\<lambda>p. p\<lparr>m_previousControlState :=
                        \<lparr>usingEnterExitVehicle = True, usingHorn = False\<rparr>\<rparr>) world_on_foot)
       \<lparr>streamedVehicles := [100],
        vehicles := (\<lambda>_. vehicle_parked\<lparr>vDoorLockState := 1\<rparr>)\<rparr>"

text \<open>Player 3 drives the vehicle at address 100 (vehicle id 7, game entity 200); the
  victim's last-damage entity is the parameter.\<close>

definition player_driving :: CNetworkPlayer where
  "player_driving = player_on_foot\<lparr>m_playerId := 3, m_pVehicle := Some 100,
     m_pPlayerPed := ped_on_foot\<lparr>pedEntity := 31, pedCurrentWeapon := 5,
        pedIsInVehicle := True, pedCurrentVehicle := Some 200\<rparr>\<rparr>"

definition world_run_over :: "nat \<Rightarrow> World" where
  "world_run_over lastDamage =
     (upd_ped (\<lambda>p. p\<lparr>pedLastDamageEntity := Some lastDamage\<rparr>) world_on_foot)
       \<lparr>players := (\<lambda>_. None)(3 := Some player_driving), streamedVehicles := [100]\<rparr>"

text \<open>The distance \<open>GetClosestVehicle\<close> computes between the player and a vehicle.\<close>

definition vdist :: "World \<Rightarrow> nat \<Rightarrow> real" where
  "vdist w v = machine_Distance3D w (GetPosition w) (vPosition (vehicles w v))"

text \<open>The player at the origin and two streamed-in vehicles on the x axis, at the given
  distances.\<close>

definition world_two_vehicles :: "real \<Rightarrow> real \<Rightarrow> World" where
  "world_two_vehicles d1 d2 =
     world_on_foot\<lparr>streamedVehicles := [101, 102],
       vehicles := (\<lambda>_. vehicle_parked)
         (101 := vehicle_parked\<lparr>vPosition := \<lparr>fX = d1, fY = 0, fZ = 0\<rparr>\<rparr>,
          102 := vehicle_parked\<lparr>vPosition := \<lparr>fX = d2, fY = 0, fZ = 0\<rparr>\<rparr>)\<rparr>"

subsection \<open>Interpolation ticks\<close>

text \<open>One call of \<open>UpdateTargetPosition\<close> when the clock reads \<open>t\<close>, and a run of such
  calls at the given times with nothing else happening in between.\<close>

definition tick :: "32 word \<Rightarrow> World \<Rightarrow> World" where
  "tick t w = UpdateTargetPosition (w\<lparr>clock := t\<rparr>)"

fun ticks :: "32 word list \<Rightarrow> World \<Rightarrow> World" where
  "ticks [] w = w"
| "ticks (t # ts) w = ticks ts (tick t w)"

text \<open>The player of \<open>world_on_foot\<close> after \<open>EnterVehicle\<close> on the vehicle at address
  100: the entry task runs and \<open>bEntering\<close> is set.\<close>

definition world_entering :: World where
  "world_entering = EnterVehicle (Some 100) 0 world_on_foot"

text \<open>The player is spawned, has no vehicle and no enter/exit flag: \<open>SetPosition\<close>
  writes the ped position.\<close>

definition on_foot_free :: "World \<Rightarrow> bool" where
  "on_foot_free w =
     (IsSpawned w \<and> \<not> IsInVehicle w \<and> \<not> InternalIsInVehicle w \<and> \<not> HasVehicleEnterExit w)"

text \<open>
  The state of an interpolation started at \<open>S\<close> with deadline \<open>F\<close> towards \<open>P\<close>: either
  it is over and the player is at \<open>P\<close>, or the part of the error vector not yet applied
  leads from the current position to \<open>P\<close>.
\<close>

definition interp_inv :: "32 word \<Rightarrow> 32 word \<Rightarrow> CVector3 \<Rightarrow> World \<Rightarrow> bool" where
  "interp_inv S F P w =
     (on_foot_free w \<and> ulStartTime (interp w) = S
      \<and> (ulFinishTime (interp w) = 0 \<and> GetPosition w = P
         \<or> ulFinishTime (interp w) = F \<and> vecTarget (interp w) = P
           \<and> vec_add (GetPosition w)
                (vec_scale (vecError (interp w)) (1 - fLastAlpha (interp w))) = P))"

subsection \<open>Single precision at the cap\<close>

text \<open>Rounding to the nearest single-precision number, ties to even, for numbers in the
  normal range (IEEE 754 binary32: 24 significant bits).\<close>

definition round_nearest_even :: "real \<Rightarrow> int" where
  "round_nearest_even y =
     (let f = \<lfloor>y\<rfloor>; r = y - of_int f
      in if r < 1 / 2 then f
         else if r > 1 / 2 then f + 1
         else if even f then f else f + 1)"

definition binary32_round :: "real \<Rightarrow> real" where
  "binary32_round x =
     (if x = 0 then 0
      else (let q = 2 powr (of_int \<lfloor>log 2 \<bar>x\<bar>\<rfloor> - 23)
            in q * of_int (round_nearest_even (x / q))))"

text \<open>
  The player at the origin and one streamed-in vehicle at
  \<open>(12582911 / 2^21, 8589935 / 2^32, 0)\<close>, both coordinates single-precision numbers. The
  exact distance lies less than half a unit in the last place below 6.0; the computed
  distance is taken to be the single-precision number nearest to it.
\<close>

definition world_at_cap :: World where
  "world_at_cap =
     world_on_foot\<lparr>streamedVehicles := [101],
       vehicles := (\<lambda>_. vehicle_parked)
         (101 := vehicle_parked\<lparr>vPosition :=
            \<lparr>fX = 12582911 / 2097152, fY = 8589935 / 4294967296, fZ = 0\<rparr>\<rparr>),
       machine_Distance3D := (\<lambda>a b. binary32_round (GetDistanceBetweenPoints3D a b))\<rparr>"

subsection \<open>The possession invariant and the reachable worlds\<close>

text \<open>The entering flag is only set without a current vehicle, the exiting flag only
  with one.\<close>

definition enter_exit_inv :: "World \<Rightarrow> bool" where
  "enter_exit_inv w =
     ((bEntering (vee w) \<longrightarrow> m_pVehicle (self w) = None)
      \<and> (bExiting (vee w) \<longrightarrow> m_pVehicle (self w) \<noteq> None))"

text \<open>
  The worlds a player object can be in: the constructor leaves no vehicle and no flag;
  then any method of the file that writes the flags or the vehicle pointer may run (when
  it does not dereference \<open>NULL\<close>), and anything else may happen that writes neither
  \<open>bEntering\<close>, \<open>bExiting\<close> nor \<open>m_pVehicle\<close> (the simulation, the clock, the pad, the
  other methods).
\<close>

inductive reachable :: "World \<Rightarrow> bool" where
  constructed:
    "m_pVehicle (self w) = None \<Longrightarrow> \<not> bEntering (vee w) \<Longrightarrow> \<not> bExiting (vee w)
     \<Longrightarrow> reachable w"
| elsewhere:
    "reachable w \<Longrightarrow> bEntering (vee w') = bEntering (vee w)
     \<Longrightarrow> bExiting (vee w') = bExiting (vee w)
     \<Longrightarrow> m_pVehicle (self w') = m_pVehicle (self w) \<Longrightarrow> reachable w'"
| enter: "reachable w \<Longrightarrow> reachable (EnterVehicle pVeh seat w)"
| exit: "reachable w \<Longrightarrow> ExitVehicle exitmode w = Inr w' \<Longrightarrow> reachable w'"
| put: "reachable w \<Longrightarrow> reachable (PutInVehicle pVeh seat w)"
| remove: "reachable w \<Longrightarrow> reachable (RemoveFromVehicle w)"
| reset: "reachable w \<Longrightarrow> reachable (ResetVehicleEnterExit w)"
| kill: "reachable w \<Longrightarrow> reachable (Kill bInstantly w)"
| key: "reachable w \<Longrightarrow> CheckVehicleEntryExitKey w = Inr w' \<Longrightarrow> reachable w'"
| process: "reachable w \<Longrightarrow> ProcessVehicleEntryExit w = Inr w' \<Longrightarrow> reachable w'"
| pulse: "reachable w \<Longrightarrow> Pulse w = Inr w' \<Longrightarrow> reachable w'"

section \<open>Properties\<close>

lemmas sel_defs = ped_def interp_def vee_def IsSpawned_def IsLocalPlayer_def
  IsInVehicle_def HasVehicleEnterExit_def HasTargetPosition_def InternalIsInVehicle_def

lemmas acc_defs = sel_defs upd_self_def upd_ped_def upd_interp_def
  upd_vee_def upd_vehicle_def Printf_def RPC_send_def

lemmas world_on_foot_defs = world_on_foot_def player_on_foot_def ped_on_foot_def
  interp_idle_def vee_reset_def vehicle_parked_def CControlState_default_def

lemmas pulse_defs = Pulse_def SetHealth_def SetArmour_def GetArmour_def
  ProcessVehicleEntryExit_def process_entry_complete_def process_entry_aborted_def
  process_exit_def IsGettingInToAVehicle_def IsGettingOutOfAVehicle_def Interpolate_def
  UpdateTargetPosition_def CheckVehicleEntryExitKey_def vehicle_death_check_def

subsection \<open>The fields of the world after each elementary update\<close>

lemma upd_self_proj [simp]:
  "self (upd_self f w) = f (self w)"
  "vehicles (upd_self f w) = vehicles w"
  "streamedVehicles (upd_self f w) = streamedVehicles w"
  "players (upd_self f w) = players w"
  "sentRPCs (upd_self f w) = sentRPCs w"
  "logFile (upd_self f w) = logFile w"
  "clock (upd_self f w) = clock w"
  "inputState (upd_self f w) = inputState w"
  "controlsDisabled (upd_self f w) = controlsDisabled w"
  "padControlState (upd_self f w) = padControlState w"
  "localPlayerInterior (upd_self f w) = localPlayerInterior w"
  "taskAllocated (upd_self f w) = taskAllocated w"
  "machine_Length (upd_self f w) = machine_Length w"
  "machine_Distance3D (upd_self f w) = machine_Distance3D w"
  by (simp_all add: upd_self_def upd_ped_def upd_interp_def upd_vee_def upd_vehicle_def
      Printf_def RPC_send_def ForceStreamIn_def)

lemma upd_ped_proj [simp]:
  "self (upd_ped f w) = (self w)\<lparr>m_pPlayerPed := f (m_pPlayerPed (self w))\<rparr>"
  "vehicles (upd_ped f w) = vehicles w"
  "streamedVehicles (upd_ped f w) = streamedVehicles w"
  "players (upd_ped f w) = players w"
  "sentRPCs (upd_ped f w) = sentRPCs w"
  "logFile (upd_ped f w) = logFile w"
  "clock (upd_ped f w) = clock w"
  "inputState (upd_ped f w) = inputState w"
  "controlsDisabled (upd_ped f w) = controlsDisabled w"
  "padControlState (upd_ped f w) = padControlState w"
  "localPlayerInterior (upd_ped f w) = localPlayerInterior w"
  "taskAllocated (upd_ped f w) = taskAllocated w"
  "machine_Length (upd_ped f w) = machine_Length w"
  "machine_Distance3D (upd_ped f w) = machine_Distance3D w"
  by (simp_all add: upd_self_def upd_ped_def upd_interp_def upd_vee_def upd_vehicle_def
      Printf_def RPC_send_def ForceStreamIn_def)

lemma upd_interp_proj [simp]:
  "self (upd_interp f w) = (self w)\<lparr>m_interp := f (m_interp (self w))\<rparr>"
  "vehicles (upd_interp f w) = vehicles w"
  "streamedVehicles (upd_interp f w) = streamedVehicles w"
  "players (upd_interp f w) = players w"
  "sentRPCs (upd_interp f w) = sentRPCs w"
  "logFile (upd_interp f w) = logFile w"
  "clock (upd_interp f w) = clock w"
  "inputState (upd_interp f w) = inputState w"
  "controlsDisabled (upd_interp f w) = controlsDisabled w"
  "padControlState (upd_interp f w) = padControlState w"
  "localPlayerInterior (upd_interp f w) = localPlayerInterior w"
  "taskAllocated (upd_interp f w) = taskAllocated w"
  "machine_Length (upd_interp f w) = machine_Length w"
  "machine_Distance3D (upd_interp f w) = machine_Distance3D w"
  by (simp_all add: upd_self_def upd_ped_def upd_interp_def upd_vee_def upd_vehicle_def
      Printf_def RPC_send_def ForceStreamIn_def)

lemma upd_vee_proj [simp]:
  "self (upd_vee f w) = (self w)\<lparr>m_vehicleEnterExit := f (m_vehicleEnterExit (self w))\<rparr>"
  "vehicles (upd_vee f w) = vehicles w"
  "streamedVehicles (upd_vee f w) = streamedVehicles w"
  "players (upd_vee f w) = players w"
  "sentRPCs (upd_vee f w) = sentRPCs w"
  "logFile (upd_vee f w) = logFile w"
  "clock (upd_vee f w) = clock w"
  "inputState (upd_vee f w) = inputState w"
  "controlsDisabled (upd_vee f w) = controlsDisabled w"
  "padControlState (upd_vee f w) = padControlState w"
  "localPlayerInterior (upd_vee f w) = localPlayerInterior w"
  "taskAllocated (upd_vee f w) = taskAllocated w"
  "machine_Length (upd_vee f w) = machine_Length w"
  "machine_Distance3D (upd_vee f w) = machine_Distance3D w"
  by (simp_all add: upd_self_def upd_ped_def upd_interp_def upd_vee_def upd_vehicle_def
      Printf_def RPC_send_def ForceStreamIn_def)

lemma upd_vehicle_proj [simp]:
  "self (upd_vehicle v f w) = self w"
  "vehicles (upd_vehicle v f w) = (vehicles w)(v := f (vehicles w v))"
  "streamedVehicles (upd_vehicle v f w) = streamedVehicles w"
  "players (upd_vehicle v f w) = players w"
  "sentRPCs (upd_vehicle v f w) = sentRPCs w"
  "logFile (upd_vehicle v f w) = logFile w"
  "clock (upd_vehicle v f w) = clock w"
  "inputState (upd_vehicle v f w) = inputState w"
  "controlsDisabled (upd_vehicle v f w) = controlsDisabled w"
  "padControlState (upd_vehicle v f w) = padControlState w"
  "localPlayerInterior (upd_vehicle v f w) = localPlayerInterior w"
  "taskAllocated (upd_vehicle v f w) = taskAllocated w"
  "machine_Length (upd_vehicle v f w) = machine_Length w"
  "machine_Distance3D (upd_vehicle v f w) = machine_Distance3D w"
  by (simp_all add: upd_self_def upd_ped_def upd_interp_def upd_vee_def upd_vehicle_def
      Printf_def RPC_send_def ForceStreamIn_def)

lemma Printf_proj [simp]:
  "self (Printf m w) = self w"
  "vehicles (Printf m w) = vehicles w"
  "streamedVehicles (Printf m w) = streamedVehicles w"
  "players (Printf m w) = players w"
  "sentRPCs (Printf m w) = sentRPCs w"
  "logFile (Printf m w) = logFile w @ [m]"
  "clock (Printf m w) = clock w"
  "inputState (Printf m w) = inputState w"
  "controlsDisabled (Printf m w) = controlsDisabled w"
  "padControlState (Printf m w) = padControlState w"
  "localPlayerInterior (Printf m w) = localPlayerInterior w"
  "taskAllocated (Printf m w) = taskAllocated w"
  "machine_Length (Printf m w) = machine_Length w"
  "machine_Distance3D (Printf m w) = machine_Distance3D w"
  by (simp_all add: upd_self_def upd_ped_def upd_interp_def upd_vee_def upd_vehicle_def
      Printf_def RPC_send_def ForceStreamIn_def)

lemma RPC_send_proj [simp]:
  "self (RPC_send r w) = self w"
  "vehicles (RPC_send r w) = vehicles w"
  "streamedVehicles (RPC_send r w) = streamedVehicles w"
  "players (RPC_send r w) = players w"
  "sentRPCs (RPC_send r w) = sentRPCs w @ [r]"
  "logFile (RPC_send r w) = logFile w"
  "clock (RPC_send r w) = clock w"
  "inputState (RPC_send r w) = inputState w"
  "controlsDisabled (RPC_send r w) = controlsDisabled w"
  "padControlState (RPC_send r w) = padControlState w"
  "localPlayerInterior (RPC_send r w) = localPlayerInterior w"
  "taskAllocated (RPC_send r w) = taskAllocated w"
  "machine_Length (RPC_send r w) = machine_Length w"
  "machine_Distance3D (RPC_send r w) = machine_Distance3D w"
  by (simp_all add: upd_self_def upd_ped_def upd_interp_def upd_vee_def upd_vehicle_def
      Printf_def RPC_send_def ForceStreamIn_def)

lemma ForceStreamIn_proj [simp]:
  "self (ForceStreamIn v w) = self w"
  "vehicles (ForceStreamIn v w) = (vehicles w)(v := (vehicles w v)\<lparr>vStreamedIn := True\<rparr>)"
  "streamedVehicles (ForceStreamIn v w) = (if v \<in> set (streamedVehicles w) then streamedVehicles w else streamedVehicles w @ [v])"
  "players (ForceStreamIn v w) = players w"
  "sentRPCs (ForceStreamIn v w) = sentRPCs w"
  "logFile (ForceStreamIn v w) = logFile w"
  "clock (ForceStreamIn v w) = clock w"
  "inputState (ForceStreamIn v w) = inputState w"
  "controlsDisabled (ForceStreamIn v w) = controlsDisabled w"
  "padControlState (ForceStreamIn v w) = padControlState w"
  "localPlayerInterior (ForceStreamIn v w) = localPlayerInterior w"
  "taskAllocated (ForceStreamIn v w) = taskAllocated w"
  "machine_Length (ForceStreamIn v w) = machine_Length w"
  "machine_Distance3D (ForceStreamIn v w) = machine_Distance3D w"
  by (simp_all add: upd_self_def upd_ped_def upd_interp_def upd_vee_def upd_vehicle_def
      Printf_def RPC_send_def ForceStreamIn_def)

lemma log_name_proj [simp]:
  "self (log_name a b w) = self w"
  "vehicles (log_name a b w) = vehicles w"
  "streamedVehicles (log_name a b w) = streamedVehicles w"
  "players (log_name a b w) = players w"
  "sentRPCs (log_name a b w) = sentRPCs w"
  "logFile (log_name a b w) = logFile w @ [if IsLocalPlayer w then a else b]"
  "clock (log_name a b w) = clock w"
  "inputState (log_name a b w) = inputState w"
  "controlsDisabled (log_name a b w) = controlsDisabled w"
  "padControlState (log_name a b w) = padControlState w"
  "localPlayerInterior (log_name a b w) = localPlayerInterior w"
  "taskAllocated (log_name a b w) = taskAllocated w"
  "machine_Length (log_name a b w) = machine_Length w"
  "machine_Distance3D (log_name a b w) = machine_Distance3D w"
  by (simp_all add: log_name_def)

lemma possession_kept [simp]:
  "m_vehicleEnterExit (self (SetAsPedTask_primary t w)) = m_vehicleEnterExit (self w)"
  "m_pVehicle (self (SetAsPedTask_primary t w)) = m_pVehicle (self w)"
  "m_bSpawned (self (SetAsPedTask_primary t w)) = m_bSpawned (self w)"
  "m_bIsLocalPlayer (self (SetAsPedTask_primary t w)) = m_bIsLocalPlayer (self w)"
  "m_vehicleEnterExit (self (ResetInterpolation w)) = m_vehicleEnterExit (self w)"
  "m_pVehicle (self (ResetInterpolation w)) = m_pVehicle (self w)"
  "m_bSpawned (self (ResetInterpolation w)) = m_bSpawned (self w)"
  "m_bIsLocalPlayer (self (ResetInterpolation w)) = m_bIsLocalPlayer (self w)"
  "m_vehicleEnterExit (self (RemoveTargetPosition w)) = m_vehicleEnterExit (self w)"
  "m_pVehicle (self (RemoveTargetPosition w)) = m_pVehicle (self w)"
  "m_bSpawned (self (RemoveTargetPosition w)) = m_bSpawned (self w)"
  "m_bIsLocalPlayer (self (RemoveTargetPosition w)) = m_bIsLocalPlayer (self w)"
  "m_vehicleEnterExit (self (ClearVehicleEntryTask w)) = m_vehicleEnterExit (self w)"
  "m_pVehicle (self (ClearVehicleEntryTask w)) = m_pVehicle (self w)"
  "m_bSpawned (self (ClearVehicleEntryTask w)) = m_bSpawned (self w)"
  "m_bIsLocalPlayer (self (ClearVehicleEntryTask w)) = m_bIsLocalPlayer (self w)"
  "m_vehicleEnterExit (self (ClearVehicleExitTask w)) = m_vehicleEnterExit (self w)"
  "m_pVehicle (self (ClearVehicleExitTask w)) = m_pVehicle (self w)"
  "m_bSpawned (self (ClearVehicleExitTask w)) = m_bSpawned (self w)"
  "m_bIsLocalPlayer (self (ClearVehicleExitTask w)) = m_bIsLocalPlayer (self w)"
  "m_vehicleEnterExit (self (log_name a b w)) = m_vehicleEnterExit (self w)"
  "m_pVehicle (self (log_name a b w)) = m_pVehicle (self w)"
  "m_bSpawned (self (log_name a b w)) = m_bSpawned (self w)"
  "m_bIsLocalPlayer (self (log_name a b w)) = m_bIsLocalPlayer (self w)"
  "m_vehicleEnterExit (self (SetHealth h w)) = m_vehicleEnterExit (self w)"
  "m_pVehicle (self (SetHealth h w)) = m_pVehicle (self w)"
  "m_bSpawned (self (SetHealth h w)) = m_bSpawned (self w)"
  "m_bIsLocalPlayer (self (SetHealth h w)) = m_bIsLocalPlayer (self w)"
  "m_vehicleEnterExit (self (SetArmour h w)) = m_vehicleEnterExit (self w)"
  "m_pVehicle (self (SetArmour h w)) = m_pVehicle (self w)"
  "m_bSpawned (self (SetArmour h w)) = m_bSpawned (self w)"
  "m_bIsLocalPlayer (self (SetArmour h w)) = m_bIsLocalPlayer (self w)"
  "m_vehicleEnterExit (self (SetInterior i w)) = m_vehicleEnterExit (self w)"
  "m_pVehicle (self (SetInterior i w)) = m_pVehicle (self w)"
  "m_bSpawned (self (SetInterior i w)) = m_bSpawned (self w)"
  "m_bIsLocalPlayer (self (SetInterior i w)) = m_bIsLocalPlayer (self w)"
  "m_vehicleEnterExit (self (SetControlState c w)) = m_vehicleEnterExit (self w)"
  "m_pVehicle (self (SetControlState c w)) = m_pVehicle (self w)"
  "m_bSpawned (self (SetControlState c w)) = m_bSpawned (self w)"
  "m_bIsLocalPlayer (self (SetControlState c w)) = m_bIsLocalPlayer (self w)"
  "m_vehicleEnterExit (self (vehicle_death_check w)) = m_vehicleEnterExit (self w)"
  "m_pVehicle (self (vehicle_death_check w)) = m_pVehicle (self w)"
  "m_bSpawned (self (vehicle_death_check w)) = m_bSpawned (self w)"
  "m_bIsLocalPlayer (self (vehicle_death_check w)) = m_bIsLocalPlayer (self w)"
  "m_vehicleEnterExit (self (InternalPutInVehicle v seat w)) = m_vehicleEnterExit (self w)"
  "m_pVehicle (self (InternalPutInVehicle v seat w)) = m_pVehicle (self w)"
  "m_bSpawned (self (InternalPutInVehicle v seat w)) = m_bSpawned (self w)"
  "m_bIsLocalPlayer (self (InternalPutInVehicle v seat w)) = m_bIsLocalPlayer (self w)"
  "m_vehicleEnterExit (self (InternalRemoveFromVehicle w)) = m_vehicleEnterExit (self w)"
  "m_pVehicle (self (InternalRemoveFromVehicle w)) = m_pVehicle (self w)"
  "m_bSpawned (self (InternalRemoveFromVehicle w)) = m_bSpawned (self w)"
  "m_bIsLocalPlayer (self (InternalRemoveFromVehicle w)) = m_bIsLocalPlayer (self w)"
  by (simp_all add: SetAsPedTask_primary_def ResetInterpolation_def
      RemoveTargetPosition_def ClearVehicleEntryTask_def ClearVehicleExitTask_def
      log_name_def SetHealth_def SetArmour_def SetInterior_def SetControlState_def
      vehicle_death_check_def InternalPutInVehicle_def InternalRemoveFromVehicle_def
      IsSpawned_def IsLocalPlayer_def Let_def split: option.split Task.split)

lemma possession_kept_SetPosition [simp]:
  "m_vehicleEnterExit (self (SetPosition p b w)) = m_vehicleEnterExit (self w)"
  "m_pVehicle (self (SetPosition p b w)) = m_pVehicle (self w)"
  "m_bSpawned (self (SetPosition p b w)) = m_bSpawned (self w)"
  "m_bIsLocalPlayer (self (SetPosition p b w)) = m_bIsLocalPlayer (self w)"
  by (simp_all add: SetPosition_def Let_def)

lemma possession_kept_UpdateTargetPosition [simp]:
  "m_vehicleEnterExit (self (UpdateTargetPosition w)) = m_vehicleEnterExit (self w)"
  "m_pVehicle (self (UpdateTargetPosition w)) = m_pVehicle (self w)"
  "m_bSpawned (self (UpdateTargetPosition w)) = m_bSpawned (self w)"
  "m_bIsLocalPlayer (self (UpdateTargetPosition w)) = m_bIsLocalPlayer (self w)"
  by (simp_all add: UpdateTargetPosition_def Let_def)

subsection \<open>What an update of the interpolation record leaves alone\<close>

lemma upd_interp_frame [simp]:
  "ped (upd_interp f w) = ped w"
  "vee (upd_interp f w) = vee w"
  "interp (upd_interp f w) = f (interp w)"
  "IsSpawned (upd_interp f w) = IsSpawned w"
  "IsLocalPlayer (upd_interp f w) = IsLocalPlayer w"
  "InternalIsInVehicle (upd_interp f w) = InternalIsInVehicle w"
  "HasVehicleEnterExit (upd_interp f w) = HasVehicleEnterExit w"
  "m_pVehicle (self (upd_interp f w)) = m_pVehicle (self w)"
  "vehicles (upd_interp f w) = vehicles w"
  "clock (upd_interp f w) = clock w"
  "GetPosition (upd_interp f w) = GetPosition w"
  by (simp_all add: acc_defs GetPosition_def split: option.split)

subsection \<open>The gate in \<open>SetPosition\<close>\<close>

lemma SetPosition_gated:
  "InternalIsInVehicle w \<or> HasVehicleEnterExit w \<or> \<not> IsSpawned w \<Longrightarrow>
   SetPosition vecPosition bReset w = (if bReset then RemoveTargetPosition w else w)"
  by (auto simp: SetPosition_def Let_def InternalIsInVehicle_def)

lemma UpdateTargetPosition_ped_gated:
  "InternalIsInVehicle w \<or> HasVehicleEnterExit w \<Longrightarrow> ped (UpdateTargetPosition w) = ped w"
  by (auto simp: UpdateTargetPosition_def Let_def SetPosition_gated)

text \<open>
  Claim C10. While the internal in-vehicle check holds or an enter/exit flag is set,
  \<open>SetPosition\<close> writes nothing but the interpolation deadline, and that only when the
  reset is requested: the ped and the position reported by \<open>GetPosition\<close> stay as they
  are, and so does the ped under an interpolation tick.
\<close>

theorem SetPosition_suppressed:
  assumes "InternalIsInVehicle w \<or> HasVehicleEnterExit w"
  shows "SetPosition vecPosition bReset w = (if bReset then RemoveTargetPosition w else w)
       \<and> ped (SetPosition vecPosition bReset w) = ped w
       \<and> GetPosition (SetPosition vecPosition bReset w) = GetPosition w
       \<and> ped (UpdateTargetPosition w) = ped w"
  using assms
  by (auto simp: SetPosition_gated UpdateTargetPosition_ped_gated RemoveTargetPosition_def)

theorem SetPosition_suppressed_witness:
  "HasVehicleEnterExit (upd_vee (\<lambda>e. e\<lparr>bEntering := True\<rparr>) world_on_foot)
   \<and> pedPosition (ped (SetPosition \<lparr>fX = 1, fY = 2, fZ = 3\<rparr> True
        (upd_vee (\<lambda>e. e\<lparr>bEntering := True\<rparr>) world_on_foot))) = CVector3_zero"
proof -
  let ?w = "upd_vee (\<lambda>e. e\<lparr>bEntering := True\<rparr>) world_on_foot"
  have h: "HasVehicleEnterExit ?w"
    by (simp add: acc_defs)
  then have g: "InternalIsInVehicle ?w \<or> HasVehicleEnterExit ?w"
    by simp
  have "ped (SetPosition \<lparr>fX = 1, fY = 2, fZ = 3\<rparr> True ?w) = ped ?w"
    using SetPosition_suppressed [OF g, of "\<lparr>fX = 1, fY = 2, fZ = 3\<rparr>" True] by blast
  moreover have "pedPosition (ped ?w) = CVector3_zero"
    by (simp add: world_on_foot_defs acc_defs)
  ultimately show ?thesis
    using h by simp
qed

subsection \<open>\<open>ExitVehicle\<close> without a vehicle\<close>

lemma ExitVehicle_on_foot:
  "IsSpawned w \<Longrightarrow> m_pVehicle (self w) = None \<Longrightarrow> ExitVehicle exitmode w = Inl NullPointer"
  by (simp add: ExitVehicle_def ClearVehicleEntryTask_def acc_defs
      split: option.split Task.split)

text \<open>
  Claim C9. For a spawned player on foot, \<open>ExitVehicle\<close> reaches the read of
  \<open>m_pVehicle->GetHealth()\<close> with \<open>m_pVehicle = NULL\<close>: the call does not complete.
\<close>

theorem ExitVehicle_on_foot_fails:
  "ExitVehicle EXIT_VEHICLE_NORMAL world_on_foot = Inl NullPointer"
  by (rule ExitVehicle_on_foot) (simp_all add: world_on_foot_defs acc_defs)

subsection \<open>The health lock under \<open>Pulse\<close>\<close>

lemma hl_simple [simp]:
  "m_bHealthLocked (self (SetAsPedTask_primary t w)) = m_bHealthLocked (self w)"
  "m_bHealthLocked (self (ResetInterpolation w)) = m_bHealthLocked (self w)"
  "m_bHealthLocked (self (ClearVehicleEntryTask w)) = m_bHealthLocked (self w)"
  "m_bHealthLocked (self (ClearVehicleExitTask w)) = m_bHealthLocked (self w)"
  "m_bHealthLocked (self (SetArmour h w)) = m_bHealthLocked (self w)"
  "m_bHealthLocked (self (vehicle_death_check w)) = m_bHealthLocked (self w)"
  "m_bHealthLocked (self (leave_vehicle v w)) = m_bHealthLocked (self w)"
  "m_bHealthLocked (self (UpdateTargetPosition w)) = m_bHealthLocked (self w)"
  by (simp_all add: SetAsPedTask_primary_def ResetInterpolation_def RemoveTargetPosition_def
      ClearVehicleEntryTask_def ClearVehicleExitTask_def SetArmour_def vehicle_death_check_def
      leave_vehicle_def UpdateTargetPosition_def SetPosition_def SetInterior_def Let_def
      split: option.split Task.split)

lemma hl_EnterVehicle [simp]:
  "m_bHealthLocked (self (EnterVehicle pVeh seat w)) = m_bHealthLocked (self w)"
  by (simp add: EnterVehicle_def Let_def split: option.split)

lemma hl_ExitVehicle:
  "ExitVehicle m w = Inr w' \<Longrightarrow> m_bHealthLocked (self w') = m_bHealthLocked (self w)"
  by (auto simp: ExitVehicle_def Let_def split: option.splits if_splits)

lemma hl_Check:
  "CheckVehicleEntryExitKey w = Inr w' \<Longrightarrow> m_bHealthLocked (self w') = m_bHealthLocked (self w)"
  unfolding CheckVehicleEntryExitKey_def exit_key_pressed_def entry_key_released_def Let_def
  by (auto dest: hl_ExitVehicle split: option.splits if_splits prod.splits)

lemma hl_Process:
  "ProcessVehicleEntryExit w = Inr w' \<Longrightarrow> m_bHealthLocked (self w') = m_bHealthLocked (self w)"
  unfolding ProcessVehicleEntryExit_def process_entry_complete_def process_entry_aborted_def
    process_exit_def Let_def
  by (auto split: option.splits if_splits sum.splits)

text \<open>Whatever else happens in it, a \<open>Pulse\<close> of a spawned player ends with the health
  lock cleared.\<close>

lemma Pulse_unlocks_health:
  "IsSpawned w \<Longrightarrow> Pulse w = Inr w' \<Longrightarrow> \<not> m_bHealthLocked (self w')"
  unfolding Pulse_def Let_def Interpolate_def
  by (auto simp: SetHealth_def IsSpawned_def dest!: hl_Process hl_Check split: if_splits sum.splits)

text \<open>
  Claim C2. After \<open>LockHealth(50)\<close> and an external write of 10, the first \<open>Pulse\<close>
  restores 50 through \<open>SetHealth\<close>, which clears the lock; after a second external
  write of 10 the next \<open>Pulse\<close> leaves the health at 10 and \<open>GetHealth\<close> returns 10.
\<close>

theorem Pulse_clears_health_lock:
  "(case Pulse (external_health_write 10 (LockHealth 50 world_on_foot)) of
      Inl e \<Rightarrow> False
    | Inr w1 \<Rightarrow>
        GetHealth (LockHealth 50 world_on_foot) = 50
        \<and> pedHealth (ped w1) = 50 \<and> \<not> m_bHealthLocked (self w1)
        \<and> (case Pulse (external_health_write 10 w1) of
             Inl e \<Rightarrow> False
           | Inr w2 \<Rightarrow> pedHealth (ped w2) = 10 \<and> GetHealth w2 = 10))"
  by (simp add: pulse_defs LockHealth_def GetHealth_def external_health_write_def
        world_on_foot_defs acc_defs Let_def)

subsection \<open>\<open>GetKillInfo\<close> and the driver of the killing vehicle\<close>

lemma upt_32: "[0..<32] = [0,1,2,3,4,5,6,7,8,9,10,11,12,13,14,15,16,17,18,19,20,21,22,23,24,25,26,27,28,29,30,31]"
  by (simp add: upt_rec)

text \<open>
  Claim C6. Player 3 drives vehicle 7. When the victim's last-damage entity is the game
  entity of that vehicle, the player loop attributes nobody (it compares with the address
  of the \<open>CNetworkVehicle\<close> object) and the vehicle loop returns vehicle 7 with no
  player. When the last-damage entity is the address the loop does compare with, the
  second component returned is the player id 3, not the vehicle id 7.
\<close>

theorem GetKillInfo_driver:
  "GetKillInfo 32 65535 (world_run_over 200) = Some (65535, 7, 65535)
   \<and> GetKillInfo 32 65535 (world_run_over 100) = Some (3, 3, 5)
   \<and> vVehicleId (vehicles (world_run_over 100) 100) = 7"
  by (simp add: GetKillInfo_def upt_32 world_run_over_def player_driving_def
      GetLastDamageEntity_def player_IsInVehicle_def player_IsAPassenger_def
      player_GetCurrentWeapon_def world_on_foot_defs acc_defs)

subsection \<open>Entering and exiting exclude each other\<close>

lemma Reset_effect [simp]:
  "m_vehicleEnterExit (self (ResetVehicleEnterExit w)) =
     (m_vehicleEnterExit (self w))\<lparr>bEntering := False, pVehicle := None, byteSeatId := 0,
        bExiting := False, bRequesting := False\<rparr>"
  "m_pVehicle (self (ResetVehicleEnterExit w)) = m_pVehicle (self w)"
  "m_bSpawned (self (ResetVehicleEnterExit w)) = m_bSpawned (self w)"
  "m_bIsLocalPlayer (self (ResetVehicleEnterExit w)) = m_bIsLocalPlayer (self w)"
  by (simp_all add: ResetVehicleEnterExit_def Let_def vee_def)

lemma inv_Reset: "enter_exit_inv (ResetVehicleEnterExit w)"
  by (simp add: enter_exit_inv_def vee_def)

lemma inv_EnterVehicle: "enter_exit_inv w \<Longrightarrow> enter_exit_inv (EnterVehicle pVeh seat w)"
  by (auto simp: EnterVehicle_def Let_def enter_exit_inv_def sel_defs split: option.split)

lemma inv_ExitVehicle:
  "enter_exit_inv w \<Longrightarrow> ExitVehicle exitmode w = Inr w' \<Longrightarrow> enter_exit_inv w'"
  by (auto simp: ExitVehicle_def Let_def enter_exit_inv_def sel_defs
      split: option.splits if_splits)

lemma inv_RemoveFromVehicle: "enter_exit_inv w \<Longrightarrow> enter_exit_inv (RemoveFromVehicle w)"
  by (simp add: RemoveFromVehicle_def Let_def inv_Reset split: option.split)

lemma inv_PutInVehicle: "enter_exit_inv w \<Longrightarrow> enter_exit_inv (PutInVehicle pVeh seat w)"
  by (simp add: PutInVehicle_def Let_def enter_exit_inv_def vee_def split: option.split)

lemma inv_Kill: "enter_exit_inv w \<Longrightarrow> enter_exit_inv (Kill b w)"
  by (simp add: Kill_def Let_def enter_exit_inv_def vee_def)

lemma inv_frames [simp]:
  "enter_exit_inv (upd_ped f w) = enter_exit_inv w"
  "enter_exit_inv (upd_interp g w) = enter_exit_inv w"
  "enter_exit_inv (upd_vehicle v h w) = enter_exit_inv w"
  "enter_exit_inv (Printf m w) = enter_exit_inv w"
  "enter_exit_inv (RPC_send r w) = enter_exit_inv w"
  "enter_exit_inv (log_name a b w) = enter_exit_inv w"
  "enter_exit_inv (upd_vee (bRequesting_update k) w) = enter_exit_inv w"
  "enter_exit_inv (vehicle_death_check w) = enter_exit_inv w"
  "enter_exit_inv (ClearVehicleEntryTask w) = enter_exit_inv w"
  "enter_exit_inv (ClearVehicleExitTask w) = enter_exit_inv w"
  "enter_exit_inv (SetHealth x w) = enter_exit_inv w"
  "enter_exit_inv (SetArmour x w) = enter_exit_inv w"
  "enter_exit_inv (UpdateTargetPosition w) = enter_exit_inv w"
  "enter_exit_inv (upd_self (m_currentControlState_update c1) w) = enter_exit_inv w"
  "enter_exit_inv (upd_self (m_previousControlState_update c2) w) = enter_exit_inv w"
  by (simp_all add: enter_exit_inv_def vee_def)

lemma inv_upd_self:
  "m_vehicleEnterExit (f (self w)) = m_vehicleEnterExit (self w) \<Longrightarrow>
   m_pVehicle (f (self w)) = m_pVehicle (self w) \<Longrightarrow>
   enter_exit_inv (upd_self f w) = enter_exit_inv w"
  by (simp add: enter_exit_inv_def vee_def)

lemma inv_upd_vee_off:
  "enter_exit_inv w \<Longrightarrow>
   (bEntering (f (vee w)) \<longrightarrow> bEntering (vee w)) \<Longrightarrow>
   (bExiting (f (vee w)) \<longrightarrow> bExiting (vee w)) \<Longrightarrow>
   enter_exit_inv (upd_vee f w)"
  by (simp add: enter_exit_inv_def vee_def)

lemma inv_exit_key_pressed:
  "enter_exit_inv w \<Longrightarrow> exit_key_pressed w = Inr w' \<Longrightarrow> enter_exit_inv w'"
  unfolding exit_key_pressed_def Let_def
  by (auto dest: inv_ExitVehicle [rotated] split: option.splits if_splits)

lemma inv_entry_key_released:
  "enter_exit_inv w \<Longrightarrow> entry_key_released b w = Inr w' \<Longrightarrow> enter_exit_inv w'"
  unfolding entry_key_released_def Let_def
  by (auto simp: inv_EnterVehicle inv_upd_vee_off split: option.splits if_splits prod.splits)

lemma inv_CheckVehicleEntryExitKey:
  "enter_exit_inv w \<Longrightarrow> CheckVehicleEntryExitKey w = Inr w' \<Longrightarrow> enter_exit_inv w'"
  unfolding CheckVehicleEntryExitKey_def Let_def
  by (auto dest: inv_exit_key_pressed inv_entry_key_released split: if_splits)

lemma inv_process_entry_complete:
  "enter_exit_inv w \<Longrightarrow> process_entry_complete w = Inr w' \<Longrightarrow> enter_exit_inv w'"
  unfolding process_entry_complete_def Let_def
  by (auto simp: enter_exit_inv_def vee_def split: option.splits if_splits)

lemma inv_process_entry_aborted:
  "enter_exit_inv w \<Longrightarrow> process_entry_aborted w = Inr w' \<Longrightarrow> enter_exit_inv w'"
  unfolding process_entry_aborted_def Let_def
  by (auto simp: inv_EnterVehicle inv_upd_vee_off split: option.splits if_splits)

lemma inv_process_exit:
  "enter_exit_inv w \<Longrightarrow> process_exit w = Inr w' \<Longrightarrow> enter_exit_inv w'"
  unfolding process_exit_def Let_def leave_vehicle_def
  by (auto simp: enter_exit_inv_def vee_def split: option.splits if_splits)

lemma inv_ProcessVehicleEntryExit:
  "enter_exit_inv w \<Longrightarrow> ProcessVehicleEntryExit w = Inr w' \<Longrightarrow> enter_exit_inv w'"
  unfolding ProcessVehicleEntryExit_def
  by (auto dest: inv_process_entry_complete inv_process_entry_aborted inv_process_exit
      split: if_splits sum.splits)

lemma inv_Pulse:
  "enter_exit_inv w \<Longrightarrow> Pulse w = Inr w' \<Longrightarrow> enter_exit_inv w'"
  unfolding Pulse_def Let_def Interpolate_def
  by (auto simp: inv_upd_self dest!: inv_ProcessVehicleEntryExit [rotated]
      inv_CheckVehicleEntryExitKey [rotated] split: if_splits sum.splits)


lemma reachable_inv: "reachable w \<Longrightarrow> enter_exit_inv w"
proof (induction rule: reachable.induct)
  case (constructed w)
  then show ?case by (simp add: enter_exit_inv_def)
next
  case (elsewhere w w')
  then show ?case by (simp add: enter_exit_inv_def)
next
  case (enter w pVeh seat)
  then show ?case by (simp add: inv_EnterVehicle)
next
  case (exit w exitmode w')
  then show ?case by (blast intro: inv_ExitVehicle)
next
  case (put w pVeh seat)
  then show ?case by (simp add: inv_PutInVehicle)
next
  case (remove w)
  then show ?case by (simp add: inv_RemoveFromVehicle)
next
  case (reset w)
  then show ?case by (simp add: inv_Reset)
next
  case (kill w bInstantly)
  then show ?case by (simp add: inv_Kill)
next
  case (key w w')
  then show ?case by (blast intro: inv_CheckVehicleEntryExitKey)
next
  case (process w w')
  then show ?case by (blast intro: inv_ProcessVehicleEntryExit)
next
  case (pulse w w')
  then show ?case by (blast intro: inv_Pulse)
qed

lemma EnterVehicle_sets_entering:
  "bEntering (vee (EnterVehicle pVeh seat w)) \<Longrightarrow> \<not> bEntering (vee w) \<Longrightarrow> \<not> IsInVehicle w"
  by (auto simp: EnterVehicle_def Let_def sel_defs split: option.splits if_splits)

lemma ExitVehicle_sets_exiting:
  "ExitVehicle exitmode w = Inr w' \<Longrightarrow> bExiting (vee w') \<Longrightarrow> \<not> bExiting (vee w)
   \<Longrightarrow> m_pVehicle (self w) \<noteq> None"
  by (auto simp: ExitVehicle_def Let_def sel_defs split: option.splits if_splits)

text \<open>
  Claim C1. In every reachable world the flags \<open>bEntering\<close> and \<open>bExiting\<close> are not
  both set; \<open>EnterVehicle\<close> sets \<open>bEntering\<close> only when the player is not in a vehicle,
  and \<open>ExitVehicle\<close> sets \<open>bExiting\<close> only when \<open>m_pVehicle\<close> is not \<open>NULL\<close>.
\<close>

theorem entering_exiting_exclusive:
  assumes "reachable w"
  shows "\<not> (bEntering (vee w) \<and> bExiting (vee w))
       \<and> (\<forall>pVeh seat. bEntering (vee (EnterVehicle pVeh seat w)) \<and> \<not> bEntering (vee w)
             \<longrightarrow> \<not> IsInVehicle w)
       \<and> (\<forall>exitmode w'. ExitVehicle exitmode w = Inr w' \<and> bExiting (vee w')
             \<and> \<not> bExiting (vee w) \<longrightarrow> m_pVehicle (self w) \<noteq> None)"
proof (intro conjI allI impI)
  show "\<not> (bEntering (vee w) \<and> bExiting (vee w))"
    using reachable_inv [OF assms] by (auto simp: enter_exit_inv_def)
next
  fix pVeh seat
  assume "bEntering (vee (EnterVehicle pVeh seat w)) \<and> \<not> bEntering (vee w)"
  then show "\<not> IsInVehicle w"
    using EnterVehicle_sets_entering by blast
next
  fix exitmode w'
  assume "ExitVehicle exitmode w = Inr w' \<and> bExiting (vee w') \<and> \<not> bExiting (vee w)"
  then show "m_pVehicle (self w) \<noteq> None"
    using ExitVehicle_sets_exiting by blast
qed

theorem entering_exiting_exclusive_witness:
  "reachable (EnterVehicle (Some 100) 0 world_on_foot)
   \<and> bEntering (vee (EnterVehicle (Some 100) 0 world_on_foot))
   \<and> \<not> bExiting (vee (EnterVehicle (Some 100) 0 world_on_foot))"
proof -
  have "reachable world_on_foot"
    by (rule reachable.constructed) (simp_all add: world_on_foot_defs vee_def)
  then have r: "reachable (EnterVehicle (Some 100) 0 world_on_foot)"
    by (rule reachable.enter)
  have e: "bEntering (vee (EnterVehicle (Some 100) 0 world_on_foot))"
    by (simp add: EnterVehicle_def Let_def sel_defs SetAsPedTask_primary_def
        ResetInterpolation_def RemoveTargetPosition_def world_on_foot_defs)
  show ?thesis
    using r e entering_exiting_exclusive [OF r] by blast
qed


subsection \<open>The enter/exit key\<close>

lemma closest_scan_cong:
  "vehicles w' = vehicles w \<Longrightarrow> machine_Distance3D w' = machine_Distance3D w
   \<Longrightarrow> closest_scan w' p vs acc = closest_scan w p vs acc"
  by (induction w p vs acc rule: closest_scan.induct) (simp_all add: Let_def)

lemma GetPosition_cong:
  "self w' = self w \<Longrightarrow> vehicles w' = vehicles w \<Longrightarrow> GetPosition w' = GetPosition w"
  by (simp add: GetPosition_def sel_defs split: option.split)

lemma GetClosestVehicle_cong:
  "self w' = self w \<Longrightarrow> vehicles w' = vehicles w \<Longrightarrow> streamedVehicles w' = streamedVehicles w
   \<Longrightarrow> machine_Distance3D w' = machine_Distance3D w
   \<Longrightarrow> GetClosestVehicle b w' = GetClosestVehicle b w"
  by (simp add: GetClosestVehicle_def IsSpawned_def closest_scan_cong [of w' w]
      GetPosition_cong [of w' w] split: option.split)

lemma GetClosestVehicle_log_name [simp]:
  "GetClosestVehicle b (log_name x y w) = GetClosestVehicle b w"
  by (rule GetClosestVehicle_cong) simp_all

lemma World_log_restore:
  "self w' = self w \<Longrightarrow> vehicles w' = vehicles w \<Longrightarrow> streamedVehicles w' = streamedVehicles w
   \<Longrightarrow> players w' = players w \<Longrightarrow> sentRPCs w' = sentRPCs w \<Longrightarrow> clock w' = clock w
   \<Longrightarrow> inputState w' = inputState w \<Longrightarrow> controlsDisabled w' = controlsDisabled w
   \<Longrightarrow> padControlState w' = padControlState w
   \<Longrightarrow> localPlayerInterior w' = localPlayerInterior w \<Longrightarrow> taskAllocated w' = taskAllocated w
   \<Longrightarrow> machine_Length w' = machine_Length w
   \<Longrightarrow> machine_Distance3D w' = machine_Distance3D w
   \<Longrightarrow> w'\<lparr>logFile := logFile w\<rparr> = (w::World)"
  by (rule World.equality) simp_all

text \<open>
  Claim C8. While \<open>bRequesting\<close> is set, \<open>CheckVehicleEntryExitKey\<close> changes nothing
  but the log file: no RPC is sent, and the player object and the vehicles stay as they
  are.
\<close>

theorem requesting_drops_input:
  assumes "bRequesting (vee w)"
  shows "\<exists>w'. CheckVehicleEntryExitKey w = Inr w'
           \<and> w'\<lparr>logFile := logFile w\<rparr> = w
           \<and> sentRPCs w' = sentRPCs w \<and> self w' = self w \<and> vehicles w' = vehicles w"
  using assms unfolding CheckVehicleEntryExitKey_def exit_key_pressed_def
    entry_key_released_def Let_def
  by (auto simp: vee_def intro!: World_log_restore)


lemma vee_flags_same:
  "\<not> bRequesting e \<Longrightarrow> \<not> bEntering e \<Longrightarrow> e\<lparr>bRequesting := False, bEntering := False\<rparr> = e"
  by (cases e) simp

text \<open>
  Claim C7. When a release of the enter/exit key or of the horn key reaches the search
  for the closest vehicle, the search succeeds, and the doors of the vehicle found are
  locked (lock state above 0), \<open>CheckVehicleEntryExitKey\<close> changes nothing but the log
  file: no RPC is sent, the ped gets no task, and \<open>bRequesting\<close> and \<open>bEntering\<close> are
  false afterwards.
\<close>

theorem locked_vehicle_entry_abandoned:
  assumes "IsSpawned w" and "inputState w" and "\<not> controlsDisabled w"
    and "\<not> (usingEnterExitVehicle (m_currentControlState (self w))
             \<and> \<not> usingEnterExitVehicle (m_previousControlState (self w)))"
    and "bHorn = (usingHorn (m_previousControlState (self w))
                  \<and> \<not> usingHorn (m_currentControlState (self w)))"
    and "(usingEnterExitVehicle (m_previousControlState (self w))
          \<and> \<not> usingEnterExitVehicle (m_currentControlState (self w))) \<or> bHorn"
    and "\<not> bRequesting (vee w)" and "\<not> IsInVehicle w" and "\<not> bEntering (vee w)"
    and "GetClosestVehicle bHorn w = Some (v, seat)"
    and "vDoorLockState (vehicles w v) > 0"
  shows "\<exists>w'. CheckVehicleEntryExitKey w = Inr w'
           \<and> w'\<lparr>logFile := logFile w\<rparr> = w
           \<and> sentRPCs w' = sentRPCs w \<and> ped w' = ped w
           \<and> \<not> bRequesting (vee w') \<and> \<not> bEntering (vee w')"
proof -
  let ?w1 = "log_name ''HandleVehicleEntryKey(LocalPlayer)'' ''HandleVehicleEntryKey(%d)'' w"
  have "CheckVehicleEntryExitKey w = entry_key_released bHorn w"
    using assms(1-6) unfolding CheckVehicleEntryExitKey_def Let_def by auto
  moreover have "entry_key_released bHorn w =
      (if vSpawned (vehicles w v)
       then Inr (upd_vee (\<lambda>e. e\<lparr>bEntering := False\<rparr>)
              (upd_vee (\<lambda>e. e\<lparr>bRequesting := False\<rparr>)
                 (log_name ''HandleVehicleEntry(LocalPlayer, %d, %d, %d)''
                    ''HandleVehicleEntry(%d, %d, %d, %d)'' ?w1)))
       else Inr ?w1)"
    using assms(7-11) unfolding entry_key_released_def Let_def
    by (simp add: sel_defs)
  ultimately show ?thesis
    using assms(7,9)
    by (auto simp: sel_defs vee_flags_same intro!: World_log_restore)
qed

theorem locked_vehicle_entry_abandoned_witness:
  "GetClosestVehicle False world_key_released = Some (100, 0)
   \<and> vDoorLockState (vehicles world_key_released 100) > 0
   \<and> (\<exists>w'. CheckVehicleEntryExitKey world_key_released = Inr w'
          \<and> sentRPCs w' = [] \<and> pedPrimaryTask (ped w') = None
          \<and> \<not> bRequesting (vee w') \<and> \<not> bEntering (vee w'))"
proof -
  have c: "GetClosestVehicle False world_key_released = Some (100, 0)"
    by (simp add: GetClosestVehicle_def GetPosition_def GetDistanceBetweenPoints3D_def
        Length_def vec_sub_def CVector3_zero_def world_key_released_def world_on_foot_defs
        sel_defs)
  have d: "vDoorLockState (vehicles world_key_released 100) > 0"
    by (simp add: world_key_released_def)
  have "\<exists>w'. CheckVehicleEntryExitKey world_key_released = Inr w'
           \<and> w'\<lparr>logFile := logFile world_key_released\<rparr> = world_key_released
           \<and> sentRPCs w' = sentRPCs world_key_released \<and> ped w' = ped world_key_released
           \<and> \<not> bRequesting (vee w') \<and> \<not> bEntering (vee w')"
    by (rule locked_vehicle_entry_abandoned [where bHorn = False and v = 100 and seat = 0])
       (simp_all add: c d, simp_all add: world_key_released_def world_on_foot_defs sel_defs)
  moreover have "sentRPCs world_key_released = []"
    and "pedPrimaryTask (ped world_key_released) = None"
    by (simp_all add: world_key_released_def world_on_foot_defs sel_defs)
  ultimately show ?thesis
    using c d by auto
qed

theorem requesting_drops_input_witness:
  "bRequesting (vee (upd_vee (\<lambda>e. e\<lparr>bRequesting := True\<rparr>) world_key_released))
   \<and> (\<exists>w'. CheckVehicleEntryExitKey (upd_vee (\<lambda>e. e\<lparr>bRequesting := True\<rparr>) world_key_released)
              = Inr w'
          \<and> sentRPCs w' = [] \<and> bRequesting (vee w'))"
proof -
  let ?w = "upd_vee (\<lambda>e. e\<lparr>bRequesting := True\<rparr>) world_key_released"
  have r: "bRequesting (vee ?w)"
    by (simp add: vee_def)
  have s: "sentRPCs ?w = []"
    by (simp add: world_key_released_def world_on_foot_defs)
  from requesting_drops_input [OF r] obtain w' where
    "CheckVehicleEntryExitKey ?w = Inr w'" "sentRPCs w' = sentRPCs ?w" "self w' = self ?w"
    by blast
  then show ?thesis
    using r s by (auto simp: vee_def)
qed


subsection \<open>The closest vehicle\<close>

lemma closest_scan_result:
  "closest_scan w p vs (c, r) = (c', r') \<Longrightarrow>
     c' \<le> c
     \<and> (\<forall>v\<in>set vs. c' \<le> machine_Distance3D w p (vPosition (vehicles w v)))
     \<and> ((c' = c \<and> r' = r)
        \<or> (\<exists>v\<in>set vs. r' = Some v
              \<and> c' = machine_Distance3D w p (vPosition (vehicles w v)) \<and> c' < c))"
proof (induction vs arbitrary: c r)
  case Nil
  then show ?case by simp
next
  case (Cons x vs)
  let ?d = "machine_Distance3D w p (vPosition (vehicles w x))"
  show ?case
  proof (cases "?d < c")
    case True
    with Cons.prems have "closest_scan w p vs (?d, Some x) = (c', r')"
      by (simp add: Let_def)
    from Cons.IH [OF this] True show ?thesis
      by auto
  next
    case False
    with Cons.prems have "closest_scan w p vs (c, r) = (c', r')"
      by (simp add: Let_def)
    from Cons.IH [OF this] False show ?thesis
      by auto
  qed
qed

lemma closest_scan_None:
  "snd (closest_scan w p vs (6, None)) = None \<Longrightarrow>
   \<forall>v\<in>set vs. \<not> machine_Distance3D w p (vPosition (vehicles w v)) < 6"
  using closest_scan_result [of w p vs 6 None "fst (closest_scan w p vs (6, None))" None]
  by (cases "closest_scan w p vs (6, None)") auto

lemma closest_scan_Some:
  "snd (closest_scan w p vs (6, None)) = Some v \<Longrightarrow>
   v \<in> set vs \<and> machine_Distance3D w p (vPosition (vehicles w v)) < 6
   \<and> (\<forall>u\<in>set vs. machine_Distance3D w p (vPosition (vehicles w v))
                    \<le> machine_Distance3D w p (vPosition (vehicles w u)))"
  using closest_scan_result [of w p vs 6 None "fst (closest_scan w p vs (6, None))" "Some v"]
  by (cases "closest_scan w p vs (6, None)") auto

lemma seat_id_nonzero: "i < 255 \<Longrightarrow> (of_nat i + 1 :: 8 word) \<noteq> 0"
proof -
  assume a: "i < 255"
  have "(of_nat i + 1 :: 8 word) = of_nat (Suc i)" by simp
  moreover have "(of_nat (Suc i) :: 8 word) \<noteq> 0"
    using a by (simp add: word_of_nat_eq_0_iff del: of_nat_Suc) (auto dest: dvd_imp_le)
  ultimately show ?thesis by (simp add: add.commute)
qed

lemma seat_scan_found:
  "seat_scan v xs = s \<Longrightarrow> s \<noteq> 0 \<Longrightarrow>
   \<exists>pre i post. xs = pre @ i # post \<and> s = of_nat i + 1 \<and> GetPassenger v i = None
      \<and> (\<forall>j\<in>set pre. GetPassenger v j \<noteq> None)"
proof (induction xs)
  case Nil
  then show ?case by simp
next
  case (Cons x xs)
  show ?case
  proof (cases "GetPassenger v x = None")
    case True
    with Cons.prems have "s = of_nat x + 1" by simp
    with True show ?thesis by (intro exI [of _ "[]"]) auto
  next
    case False
    with Cons.prems have "seat_scan v xs = s" by simp
    from Cons.IH [OF this Cons.prems(2)] obtain pre i post where
      "xs = pre @ i # post" "s = of_nat i + 1" "GetPassenger v i = None"
      "\<forall>j\<in>set pre. GetPassenger v j \<noteq> None" by blast
    with False show ?thesis
      by (intro exI [of _ "x # pre"] exI [of _ i] exI [of _ post]) auto
  qed
qed

lemma seat_scan_zero:
  "\<forall>i\<in>set xs. i < 255 \<Longrightarrow> (seat_scan v xs = 0) = (\<forall>i\<in>set xs. GetPassenger v i \<noteq> None)"
  by (induction xs) (auto simp: seat_id_nonzero)

lemma upt_split:
  assumes "[0..<n] = pre @ i # post"
  shows "i < n \<and> set pre = {0..<i}"
proof -
  have len: "length pre < n"
    using arg_cong [OF assms, of length] by simp
  have "[0..<n] ! length pre = i"
    using assms by (simp add: nth_append)
  with len have i: "i = length pre" by simp
  have "pre = take (length pre) [0..<n]"
    using assms by simp
  also have "\<dots> = [0..<length pre]"
    using len by (simp add: take_upt)
  finally have "set pre = {0..<length pre}"
    by (metis atLeastLessThan_upt)
  with i len show ?thesis by simp
qed

lemma seat_scan_upt:
  assumes "seat_scan v [0..<n] = s" and "s \<noteq> 0"
  shows "\<exists>i<n. s = of_nat i + 1 \<and> GetPassenger v i = None
           \<and> (\<forall>j<i. GetPassenger v j \<noteq> None)"
proof -
  from seat_scan_found [OF assms] obtain pre i post where
    h: "[0..<n] = pre @ i # post" "s = of_nat i + 1" "GetPassenger v i = None"
       "\<forall>j\<in>set pre. GetPassenger v j \<noteq> None" by blast
  from upt_split [OF h(1)] have "i < n" "set pre = {0..<i}" by simp_all
  with h show ?thesis by auto
qed

lemma max_passengers_bound: "\<forall>i\<in>set [0..<unat (m :: 8 word)]. i < 255"
proof -
  have "unat m < 2 ^ LENGTH(8)" by (rule unsigned_less)
  then have "unat m < 256" by simp
  then show ?thesis by auto
qed


text \<open>
  Claim C5 (amended). Distances are the values \<open>Math::GetDistanceBetweenPoints3D\<close>
  computes (\<open>vdist\<close>). For a spawned player, a vehicle returned by \<open>GetClosestVehicle\<close>
  is streamed in, has a computed distance below 6.0 and of minimum value among the
  streamed-in vehicles; with no streamed-in vehicle of computed distance below 6.0 the
  search fails, otherwise the search for the driver seat succeeds with seat 0. For a
  passenger seat the result is \<open>i + 1\<close> for the first free passenger index \<open>i\<close>, and the
  search fails exactly when every passenger seat of the closest vehicle is occupied.
\<close>

theorem GetClosestVehicle_closest:
  assumes "IsSpawned w"
  shows "(\<forall>v seat. GetClosestVehicle bPassenger w = Some (v, seat) \<longrightarrow>
            v \<in> set (streamedVehicles w) \<and> vdist w v < 6
            \<and> (\<forall>u\<in>set (streamedVehicles w). vdist w v \<le> vdist w u)
            \<and> (if bPassenger
               then (\<exists>i < unat (vMaxPassengers (vehicles w v)).
                       seat = of_nat i + 1 \<and> GetPassenger (vehicles w v) i = None
                       \<and> (\<forall>j<i. GetPassenger (vehicles w v) j \<noteq> None))
               else seat = 0))
       \<and> ((\<forall>u\<in>set (streamedVehicles w). \<not> vdist w u < 6)
            \<longrightarrow> GetClosestVehicle bPassenger w = None)
       \<and> ((\<exists>u\<in>set (streamedVehicles w). vdist w u < 6)
            \<longrightarrow> (\<exists>v. GetClosestVehicle False w = Some (v, 0)))
       \<and> (\<forall>v. GetClosestVehicle False w = Some (v, 0) \<longrightarrow>
             (GetClosestVehicle True w = None)
              = (\<forall>i < unat (vMaxPassengers (vehicles w v)).
                   GetPassenger (vehicles w v) i \<noteq> None))"
proof (intro conjI allI impI)
  fix v seat
  assume g: "GetClosestVehicle bPassenger w = Some (v, seat)"
  let ?r = "snd (closest_scan w (GetPosition w) (streamedVehicles w) (6, None))"
  from g assms have r: "?r = Some v"
    by (auto simp: GetClosestVehicle_def Let_def split: option.splits if_splits)
  from closest_scan_Some [OF r]
  show "v \<in> set (streamedVehicles w)" and "vdist w v < 6"
    and "\<forall>u\<in>set (streamedVehicles w). vdist w v \<le> vdist w u"
    by (simp_all add: vdist_def)
  show "if bPassenger
        then (\<exists>i < unat (vMaxPassengers (vehicles w v)).
                seat = of_nat i + 1 \<and> GetPassenger (vehicles w v) i = None
                \<and> (\<forall>j<i. GetPassenger (vehicles w v) j \<noteq> None))
        else seat = 0"
  proof (cases bPassenger)
    case True
    with g assms r
    have "seat_scan (vehicles w v) [0..<unat (vMaxPassengers (vehicles w v))] = seat"
      and "seat \<noteq> 0"
      by (auto simp: GetClosestVehicle_def Let_def split: if_splits)
    from seat_scan_upt [OF this] True show ?thesis by simp
  next
    case False
    with g assms r show ?thesis
      by (auto simp: GetClosestVehicle_def)
  qed
next
  assume "\<forall>u\<in>set (streamedVehicles w). \<not> vdist w u < 6"
  then have "snd (closest_scan w (GetPosition w) (streamedVehicles w) (6, None)) = None"
    using closest_scan_Some [of w "GetPosition w" "streamedVehicles w"]
    by (cases "snd (closest_scan w (GetPosition w) (streamedVehicles w) (6, None))")
       (auto simp: vdist_def)
  then show "GetClosestVehicle bPassenger w = None"
    by (simp add: GetClosestVehicle_def)
next
  assume "\<exists>u\<in>set (streamedVehicles w). vdist w u < 6"
  then have "snd (closest_scan w (GetPosition w) (streamedVehicles w) (6, None)) \<noteq> None"
    using closest_scan_None [of w "GetPosition w" "streamedVehicles w"]
    by (auto simp: vdist_def)
  with assms show "\<exists>v. GetClosestVehicle False w = Some (v, 0)"
    by (auto simp: GetClosestVehicle_def)
next
  fix v
  assume "GetClosestVehicle False w = Some (v, 0)"
  with assms have "snd (closest_scan w (GetPosition w) (streamedVehicles w) (6, None)) = Some v"
    by (auto simp: GetClosestVehicle_def split: option.splits)
  with assms show "(GetClosestVehicle True w = None)
        = (\<forall>i < unat (vMaxPassengers (vehicles w v)). GetPassenger (vehicles w v) i \<noteq> None)"
    using seat_scan_zero [OF max_passengers_bound, of "vehicles w v" "vMaxPassengers (vehicles w v)"]
    by (auto simp: GetClosestVehicle_def Let_def)
qed


lemma world_two_vehicles_facts:
  "IsSpawned (world_two_vehicles d1 d2)"
  "streamedVehicles (world_two_vehicles d1 d2) = [101, 102]"
  "vdist (world_two_vehicles d1 d2) 101 = \<bar>d1\<bar>"
  "vdist (world_two_vehicles d1 d2) 102 = \<bar>d2\<bar>"
  by (simp_all add: world_two_vehicles_def vdist_def GetPosition_def
      GetDistanceBetweenPoints3D_def Length_def vec_sub_def CVector3_zero_def
      world_on_foot_defs sel_defs)

theorem GetClosestVehicle_closest_witness:
  "IsSpawned (world_two_vehicles 3 (11 / 2))
   \<and> GetClosestVehicle False (world_two_vehicles 3 (11 / 2)) = Some (101, 0)
   \<and> IsSpawned (world_two_vehicles 7 8)
   \<and> GetClosestVehicle False (world_two_vehicles 7 8) = None"
proof -
  let ?a = "world_two_vehicles 3 (11 / 2)" and ?b = "world_two_vehicles 7 8"
  note fa = world_two_vehicles_facts [of 3 "11 / 2"]
  note fb = world_two_vehicles_facts [of 7 8]
  note A = GetClosestVehicle_closest [OF fa(1), of False]
  note B = GetClosestVehicle_closest [OF fb(1), of False]
  have "\<exists>u\<in>set (streamedVehicles ?a). vdist ?a u < 6"
    by (simp add: fa)
  with A [THEN conjunct2, THEN conjunct2, THEN conjunct1]
  obtain v where v: "GetClosestVehicle False ?a = Some (v, 0)"
    by blast
  from A [THEN conjunct1, rule_format, OF v]
  have "v \<in> set (streamedVehicles ?a)"
    and "\<forall>u\<in>set (streamedVehicles ?a). vdist ?a v \<le> vdist ?a u"
    by blast+
  then have "v = 101"
    by (auto simp: fa)
  with v have a: "GetClosestVehicle False ?a = Some (101, 0)"
    by simp
  have "\<forall>u\<in>set (streamedVehicles ?b). \<not> vdist ?b u < 6"
    by (simp add: fb)
  with B [THEN conjunct2, THEN conjunct1]
  have b: "GetClosestVehicle False ?b = None"
    by blast
  show ?thesis
    using a b fa(1) fb(1) by simp
qed


subsection \<open>Interpolation towards a target\<close>

lemma vec_eq_iff: "((a::CVector3) = b) = (fX a = fX b \<and> fY a = fY b \<and> fZ a = fZ b)"
  by (cases a, cases b) simp

lemma Length_gt: "0 \<le> c \<Longrightarrow> (c < Length v) = (c * c < fX v * fX v + fY v * fY v + fZ v * fZ v)"
proof -
  assume c: "0 \<le> c"
  then have "c = sqrt (c * c)" by simp
  then have "(c < Length v) = (sqrt (c * c) < sqrt (fX v * fX v + fY v * fY v + fZ v * fZ v))"
    by (simp add: Length_def)
  then show ?thesis by (simp only: real_sqrt_less_iff)
qed

lemma ped_kept_by_SetPosition [simp]:
  "pedIsInVehicle (m_pPlayerPed (self (SetPosition p b w))) = pedIsInVehicle (m_pPlayerPed (self w))"
  "pedCurrentVehicle (m_pPlayerPed (self (SetPosition p b w))) = pedCurrentVehicle (m_pPlayerPed (self w))"
  by (simp_all add: SetPosition_def Let_def RemoveTargetPosition_def SetInterior_def)

lemma on_foot_free_SetPosition [simp]: "on_foot_free (SetPosition p b w) = on_foot_free w"
  by (simp add: on_foot_free_def sel_defs)

lemma on_foot_free_upd_interp [simp]: "on_foot_free (upd_interp f w) = on_foot_free w"
  by (simp add: on_foot_free_def sel_defs)

lemma on_foot_free_clock [simp]: "on_foot_free (w\<lparr>clock := t\<rparr>) = on_foot_free w"
  by (simp add: on_foot_free_def sel_defs)

lemma on_foot_free_UpdateTargetPosition [simp]:
  "on_foot_free (UpdateTargetPosition w) = on_foot_free w"
  by (simp add: UpdateTargetPosition_def Let_def)

lemma interp_SetPosition_False [simp]: "m_interp (self (SetPosition p False w)) = m_interp (self w)"
  by (simp add: SetPosition_def Let_def SetInterior_def)

lemma GetPosition_SetPosition:
  "on_foot_free w \<Longrightarrow> GetPosition (SetPosition p False w) = p"
  by (auto simp: on_foot_free_def SetPosition_def Let_def SetInterior_def GetPosition_def sel_defs)

lemma pedPosition_SetPosition:
  "on_foot_free w \<Longrightarrow> pedPosition (ped (SetPosition p False w)) = p"
  by (auto simp: on_foot_free_def SetPosition_def Let_def SetInterior_def sel_defs)

lemma clock_SetPosition [simp]: "clock (SetPosition p b w) = clock w"
  by (simp add: SetPosition_def Let_def SetInterior_def RemoveTargetPosition_def)

lemma clock_UpdateTargetPosition [simp]: "clock (UpdateTargetPosition w) = clock w"
  by (simp add: UpdateTargetPosition_def Let_def)

lemma machine_kept [simp]:
  "machine_Length (SetPosition p b w) = machine_Length w"
  "machine_Length (UpdateTargetPosition w) = machine_Length w"
  "machine_Length (SetTargetPosition P d w) = machine_Length w"
  "machine_Length (EnterVehicle pVeh seat w) = machine_Length w"
  by (simp_all add: SetPosition_def SetInterior_def RemoveTargetPosition_def
      UpdateTargetPosition_def SetTargetPosition_def EnterVehicle_def SetAsPedTask_primary_def
      ResetInterpolation_def Let_def split: option.split)

lemma UpdateTargetPosition_idle:
  "ulFinishTime (interp w) = 0 \<Longrightarrow> UpdateTargetPosition w = w"
  by (simp add: UpdateTargetPosition_def HasTargetPosition_def)

lemma interp_SetTargetPosition:
  "IsSpawned w \<Longrightarrow>
   interp (SetTargetPosition P d w) =
     \<lparr>vecTarget = P, vecError = vec_sub P (GetPosition (SetTargetPosition P d w)),
      ulStartTime = clock w, ulFinishTime = clock w + d, fLastAlpha = 0\<rparr>"
  by (simp add: SetTargetPosition_def Let_def GetPosition_def sel_defs
      split: option.split)

lemma on_foot_free_SetTargetPosition [simp]:
  "on_foot_free (SetTargetPosition P d w) = on_foot_free w"
  by (simp add: SetTargetPosition_def Let_def)

lemma GetPosition_SetTargetPosition_idle:
  "\<not> HasTargetPosition w \<Longrightarrow> GetPosition (SetTargetPosition P d w) = GetPosition w"
  by (simp add: SetTargetPosition_def Let_def UpdateTargetPosition_def GetPosition_def sel_defs
      split: option.split)


lemma clock_update_frame [simp]:
  "GetPosition (w\<lparr>clock := t\<rparr>) = GetPosition w"
  "interp (w\<lparr>clock := t\<rparr>) = interp w"
  by (simp_all add: GetPosition_def sel_defs split: option.split)

lemma interp_inv_SetTargetPosition:
  assumes "on_foot_free w"
  shows "interp_inv (clock w) (clock w + d) P (SetTargetPosition P d w)"
proof -
  have s: "IsSpawned w" using assms by (simp add: on_foot_free_def)
  show ?thesis
    using assms
    by (simp add: interp_inv_def interp_SetTargetPosition [OF s] vec_eq_iff vec_add_def
        vec_scale_def vec_sub_def)
qed

lemma interp_inv_tick:
  assumes "interp_inv S F P w" and "F \<noteq> 0"
  shows "interp_inv S F P (tick t w)"
proof (cases "ulFinishTime (interp w) = 0")
  case True
  then have "tick t w = w\<lparr>clock := t\<rparr>"
    by (simp add: tick_def UpdateTargetPosition_def sel_defs)
  with assms True show ?thesis
    by (simp add: interp_inv_def)
next
  case False
  with assms have a: "on_foot_free w" "ulStartTime (interp w) = S" "ulFinishTime (interp w) = F"
    "vecTarget (interp w) = P"
    "vec_add (GetPosition w) (vec_scale (vecError (interp w)) (1 - fLastAlpha (interp w))) = P"
    by (auto simp: interp_inv_def)
  show ?thesis
    using a False
    unfolding tick_def UpdateTargetPosition_def Let_def interp_inv_def HasTargetPosition_def
    by (auto simp: GetPosition_SetPosition interp_def vec_eq_iff vec_add_def vec_scale_def
        vec_sub_def Lerp_def CVector3_zero_def algebra_simps)
qed


lemma interp_inv_ticks:
  "interp_inv S F P w \<Longrightarrow> F \<noteq> 0 \<Longrightarrow> interp_inv S F P (ticks ts w)"
  by (induction ts arbitrary: w) (simp_all add: interp_inv_tick)

lemma ticks_append: "ticks (ts @ us) w = ticks us (ticks ts w)"
  by (induction ts arbitrary: w) simp_all

lemma Clamp_late:
  fixes s f t :: real
  assumes "s < f" and "f \<le> t"
  shows "Clamp 0 ((t - s) / (f - s)) 1 = 1"
proof -
  have "0 < f - s" and "f - s \<le> t - s" using assms by simp_all
  then have "1 \<le> (t - s) / (f - s)"
    by (simp add: le_divide_eq_1_pos)
  then show ?thesis
    by (simp add: Clamp_def)
qed

lemma Unlerp_late:
  assumes "unat S < unat F" and "unat F \<le> unat t"
  shows "Clamp 0 (Unlerp S t F) 1 = 1"
  unfolding Unlerp_def
  by (rule Clamp_late) (use assms in \<open>simp_all only: of_nat_less_iff of_nat_le_iff\<close>)

lemma tick_late:
  assumes "interp_inv S F P w" and "F \<noteq> 0" and "unat S < unat F" and "unat F \<le> unat t"
  shows "ulFinishTime (interp (tick t w)) = 0"
proof (cases "ulFinishTime (interp w) = 0")
  case True
  then show ?thesis
    by (simp add: tick_def UpdateTargetPosition_def sel_defs)
next
  case False
  with assms have a: "ulStartTime (interp w) = S" "ulFinishTime (interp w) = F"
    by (auto simp: interp_inv_def)
  show ?thesis
    using a False Unlerp_late [OF assms(3,4)]
    unfolding tick_def UpdateTargetPosition_def Let_def HasTargetPosition_def
    by (simp add: interp_def)
qed

text \<open>
  Claim C3 (amended). For a spawned player without a vehicle and without an enter/exit
  flag, and a clock that does not wrap before the deadline: after
  \<open>SetTargetPosition(P, d)\<close> with \<open>d > 0\<close>, any run of ticks whose last one happens at
  or after the deadline leaves the player at \<open>P\<close> (in exact arithmetic) with the
  deadline cleared, and every further tick changes nothing but the clock.
\<close>

theorem interpolation_reaches_target:
  assumes "IsSpawned w" and "\<not> IsInVehicle w" and "\<not> InternalIsInVehicle w"
    and "\<not> HasVehicleEnterExit w"
    and "0 < d" and "unat (clock w) + unat d < 2 ^ 32"
    and "ts \<noteq> []" and "unat (clock w) + unat d \<le> unat (last ts)"
  shows "GetPosition (ticks ts (SetTargetPosition P d w)) = P
       \<and> ulFinishTime (interp (ticks ts (SetTargetPosition P d w))) = 0
       \<and> (\<forall>t. tick t (ticks ts (SetTargetPosition P d w))
                = (ticks ts (SetTargetPosition P d w))\<lparr>clock := t\<rparr>)"
proof -
  let ?S = "clock w" and ?F = "clock w + d"
  let ?w1 = "SetTargetPosition P d w"
  have free: "on_foot_free w"
    using assms(1-4) by (simp add: on_foot_free_def)
  have F: "unat ?F = unat (clock w) + unat d"
    using assms(6) by (simp add: unat_word_ariths)
  have d0: "0 < unat d"
    using assms(5) by (simp add: word_less_nat_alt)
  have Fnz: "?F \<noteq> 0"
    using F d0 by (metis add_is_0 less_numeral_extra(3) unat_0)
  have SF: "unat ?S < unat ?F"
    using F d0 by simp
  from assms(7) obtain us t where ts: "ts = us @ [t]"
    by (metis rev_exhaust)
  with assms(8) F have late: "unat ?F \<le> unat t"
    by simp
  have inv1: "interp_inv ?S ?F P (ticks us ?w1)"
    by (rule interp_inv_ticks [OF interp_inv_SetTargetPosition [OF free] Fnz])
  have fin: "ulFinishTime (interp (tick t (ticks us ?w1))) = 0"
    by (rule tick_late [OF inv1 Fnz SF late])
  have "interp_inv ?S ?F P (tick t (ticks us ?w1))"
    by (rule interp_inv_tick [OF inv1 Fnz])
  with fin Fnz have pos: "GetPosition (tick t (ticks us ?w1)) = P"
    by (auto simp: interp_inv_def)
  have eq: "ticks ts ?w1 = tick t (ticks us ?w1)"
    by (simp add: ts ticks_append)
  show ?thesis
    using fin pos
    by (simp add: eq tick_def [of _ "tick t (ticks us ?w1)"] UpdateTargetPosition_idle)
qed


theorem interpolation_reaches_target_witness:
  "IsSpawned world_on_foot \<and> \<not> IsInVehicle world_on_foot
   \<and> \<not> InternalIsInVehicle world_on_foot \<and> \<not> HasVehicleEnterExit world_on_foot
   \<and> GetPosition (ticks [250, 500, 1000]
         (SetTargetPosition \<lparr>fX = 1, fY = 2, fZ = 2\<rparr> 1000 world_on_foot))
       = \<lparr>fX = 1, fY = 2, fZ = 2\<rparr>"
proof -
  have h: "IsSpawned world_on_foot" "\<not> IsInVehicle world_on_foot"
    "\<not> InternalIsInVehicle world_on_foot" "\<not> HasVehicleEnterExit world_on_foot"
    by (simp_all add: world_on_foot_defs sel_defs)
  have c: "clock world_on_foot = 0"
    by (simp add: world_on_foot_def)
  have "GetPosition (ticks [250, 500, 1000]
         (SetTargetPosition \<lparr>fX = 1, fY = 2, fZ = 2\<rparr> 1000 world_on_foot))
       = \<lparr>fX = 1, fY = 2, fZ = 2\<rparr>"
    using interpolation_reaches_target [OF h, of 1000 "[250, 500, 1000]"
        "\<lparr>fX = 1, fY = 2, fZ = 2\<rparr>"]
    by (simp add: c)
  with h show ?thesis by simp
qed

text \<open>
  Claim C3 as stated fails while an entry is in progress: the player is spawned, not in a
  vehicle, one unit away from the target, and after ticks up to the deadline it has not
  moved.
\<close>

theorem entering_blocks_interpolation:
  "IsSpawned world_entering \<and> \<not> IsInVehicle world_entering
   \<and> \<not> InternalIsInVehicle world_entering
   \<and> \<not> 5 < Length (vec_sub (GetPosition world_entering) \<lparr>fX = 1, fY = 0, fZ = 0\<rparr>)
   \<and> machine_Length world_entering = Length
   \<and> GetPosition (ticks [250, 500, 1000]
         (SetTargetPosition \<lparr>fX = 1, fY = 0, fZ = 0\<rparr> 1000 world_entering))
       \<noteq> \<lparr>fX = 1, fY = 0, fZ = 0\<rparr>"
proof -
  have e: "HasVehicleEnterExit world_entering" "IsSpawned world_entering"
    "m_pVehicle (self world_entering) = None"
    "pedPosition (ped world_entering) = CVector3_zero"
    "\<not> InternalIsInVehicle world_entering"
    by (simp_all add: world_entering_def EnterVehicle_def Let_def sel_defs
        SetAsPedTask_primary_def ResetInterpolation_def RemoveTargetPosition_def
        world_on_foot_defs)
  have p: "ped (UpdateTargetPosition w) = ped w" if "HasVehicleEnterExit w" for w
    using that by (rule UpdateTargetPosition_ped_gated [OF disjI2])
  have k: "HasVehicleEnterExit (tick t w) = HasVehicleEnterExit w" for t w
    by (simp add: tick_def sel_defs)
  have q: "ped (tick t w) = ped w" if "HasVehicleEnterExit w" for t w
    using that p [of "w\<lparr>clock := t\<rparr>"] by (simp add: tick_def sel_defs)
  let ?w1 = "SetTargetPosition \<lparr>fX = 1, fY = 0, fZ = 0\<rparr> 1000 world_entering"
  have h1: "HasVehicleEnterExit ?w1" and p1: "ped ?w1 = ped world_entering"
    and v1: "m_pVehicle (self ?w1) = None" and s1: "IsSpawned ?w1"
    using e p [of world_entering] by (simp_all add: SetTargetPosition_def Let_def sel_defs)
  have "ped (ticks [250, 500, 1000] ?w1) = ped ?w1"
    using h1 by (simp add: q k)
  moreover have "m_pVehicle (self (ticks [250, 500, 1000] ?w1)) = None"
    and "IsSpawned (ticks [250, 500, 1000] ?w1)"
    using v1 s1 by (simp_all add: tick_def sel_defs)
  ultimately have "GetPosition (ticks [250, 500, 1000] ?w1) = CVector3_zero"
    using p1 e by (simp add: GetPosition_def)
  moreover have "GetPosition world_entering = CVector3_zero"
    using e by (simp add: GetPosition_def)
  ultimately show ?thesis
    using e by (simp add: IsInVehicle_def Length_gt vec_sub_def CVector3_zero_def
        world_entering_def world_on_foot_def)
qed


text \<open>
  Claim C4 (amended). For a spawned player without a vehicle and without an enter/exit
  flag: if \<open>SetTargetPosition\<close> records a non-zero finish time and the length that
  \<open>Length()\<close> computes for the difference between the position the player then has (its
  current position when no interpolation was active) and the target is above 5, the
  next tick puts the player exactly at the target and clears the deadline.
\<close>

theorem far_target_snaps:
  assumes "IsSpawned w" and "\<not> IsInVehicle w" and "\<not> InternalIsInVehicle w"
    and "\<not> HasVehicleEnterExit w"
    and "clock w + d \<noteq> 0"
    and "5 < machine_Length w (vec_sub (GetPosition (SetTargetPosition P d w)) P)"
  shows "GetPosition (tick t (SetTargetPosition P d w)) = P
       \<and> pedPosition (ped (tick t (SetTargetPosition P d w))) = P
       \<and> ulFinishTime (interp (tick t (SetTargetPosition P d w))) = 0
       \<and> (\<not> HasTargetPosition w \<longrightarrow> GetPosition (SetTargetPosition P d w) = GetPosition w)"
proof -
  let ?w1 = "SetTargetPosition P d w"
  have "on_foot_free w"
    using assms(1-4) by (simp add: on_foot_free_def)
  then have free: "on_foot_free ?w1"
    by simp
  have i: "interp ?w1 = \<lparr>vecTarget = P, vecError = vec_sub P (GetPosition ?w1),
      ulStartTime = clock w, ulFinishTime = clock w + d, fLastAlpha = 0\<rparr>"
    by (rule interp_SetTargetPosition [OF assms(1)])
  have far: "5 < machine_Length (?w1\<lparr>clock := t\<rparr>)
      (vec_sub (GetPosition (?w1\<lparr>clock := t\<rparr>)) P)"
    using assms(6) by simp
  have free': "on_foot_free (upd_interp f (?w1\<lparr>clock := t\<rparr>))" for f
    using free by simp
  have "tick t ?w1 = SetPosition P False
      (upd_interp (\<lambda>i. i\<lparr>ulFinishTime := 0\<rparr>)
        (if Clamp 0 (Unlerp (clock w) t (clock w + d)) 1 = 1
         then upd_interp (\<lambda>i. i\<lparr>ulFinishTime := 0\<rparr>)
                (upd_interp (\<lambda>i. i\<lparr>fLastAlpha := Clamp 0 (Unlerp (clock w) t (clock w + d)) 1\<rparr>)
                   (?w1\<lparr>clock := t\<rparr>))
         else upd_interp (\<lambda>i. i\<lparr>fLastAlpha := Clamp 0 (Unlerp (clock w) t (clock w + d)) 1\<rparr>)
                (?w1\<lparr>clock := t\<rparr>)))"
    using assms(5) far
    unfolding tick_def UpdateTargetPosition_def Let_def HasTargetPosition_def
    by (simp add: i)
  then show ?thesis
    using free' GetPosition_SetTargetPosition_idle [of w P d]
    by (simp add: GetPosition_SetPosition pedPosition_SetPosition interp_def)
qed

theorem far_target_snaps_witness:
  "IsSpawned world_on_foot \<and> \<not> IsInVehicle world_on_foot
   \<and> \<not> InternalIsInVehicle world_on_foot \<and> \<not> HasVehicleEnterExit world_on_foot
   \<and> 5 < machine_Length world_on_foot
           (vec_sub (GetPosition world_on_foot) \<lparr>fX = 10, fY = 0, fZ = 0\<rparr>)
   \<and> GetPosition (tick 16 (SetTargetPosition \<lparr>fX = 10, fY = 0, fZ = 0\<rparr> 1000 world_on_foot))
       = \<lparr>fX = 10, fY = 0, fZ = 0\<rparr>
   \<and> ulFinishTime (interp (tick 16
         (SetTargetPosition \<lparr>fX = 10, fY = 0, fZ = 0\<rparr> 1000 world_on_foot))) = 0"
proof -
  let ?P = "\<lparr>fX = 10, fY = 0, fZ = 0\<rparr>"
  have h: "IsSpawned world_on_foot" "\<not> IsInVehicle world_on_foot"
    "\<not> InternalIsInVehicle world_on_foot" "\<not> HasVehicleEnterExit world_on_foot"
    by (simp_all add: world_on_foot_defs sel_defs)
  have c: "clock world_on_foot + 1000 \<noteq> 0"
    by (simp add: world_on_foot_def)
  have idle: "\<not> HasTargetPosition world_on_foot"
    by (simp add: world_on_foot_defs sel_defs)
  have g: "GetPosition world_on_foot = CVector3_zero"
    by (simp add: GetPosition_def world_on_foot_defs sel_defs)
  have m: "machine_Length world_on_foot = Length"
    by (simp add: world_on_foot_def)
  have far: "5 < machine_Length world_on_foot (vec_sub (GetPosition world_on_foot) ?P)"
    by (simp add: m g Length_gt vec_sub_def CVector3_zero_def)
  then have far': "5 < machine_Length world_on_foot
      (vec_sub (GetPosition (SetTargetPosition ?P 1000 world_on_foot)) ?P)"
    by (simp add: GetPosition_SetTargetPosition_idle [OF idle])
  show ?thesis
    using h far far_target_snaps [OF h c far', of 16] by simp
qed

text \<open>
  Claim C4 as stated fails while an entry is in progress: the target is 10 away, and the
  next tick leaves the player where it was.
\<close>

theorem entering_blocks_snap:
  "IsSpawned world_entering \<and> \<not> IsInVehicle world_entering
   \<and> 5 < Length (vec_sub (GetPosition world_entering) \<lparr>fX = 10, fY = 0, fZ = 0\<rparr>)
   \<and> machine_Length world_entering = Length
   \<and> GetPosition (tick 16 (SetTargetPosition \<lparr>fX = 10, fY = 0, fZ = 0\<rparr> 1000 world_entering))
       \<noteq> \<lparr>fX = 10, fY = 0, fZ = 0\<rparr>"
proof -
  let ?P = "\<lparr>fX = 10, fY = 0, fZ = 0\<rparr>"
  have e: "HasVehicleEnterExit world_entering" "IsSpawned world_entering"
    "m_pVehicle (self world_entering) = None"
    "pedPosition (ped world_entering) = CVector3_zero"
    by (simp_all add: world_entering_def EnterVehicle_def Let_def sel_defs
        SetAsPedTask_primary_def ResetInterpolation_def RemoveTargetPosition_def
        world_on_foot_defs)
  have p: "ped (UpdateTargetPosition w) = ped w" if "HasVehicleEnterExit w" for w
    using that by (rule UpdateTargetPosition_ped_gated [OF disjI2])
  let ?w1 = "SetTargetPosition ?P 1000 world_entering"
  have h1: "HasVehicleEnterExit ?w1" and p1: "ped ?w1 = ped world_entering"
    and v1: "m_pVehicle (self ?w1) = None" and s1: "IsSpawned ?w1"
    using e p [of world_entering] by (simp_all add: SetTargetPosition_def Let_def sel_defs)
  have "ped (tick 16 ?w1) = ped ?w1"
    using h1 p [of "?w1\<lparr>clock := 16\<rparr>"] by (simp add: tick_def sel_defs)
  moreover have "m_pVehicle (self (tick 16 ?w1)) = None" and "IsSpawned (tick 16 ?w1)"
    using v1 s1 by (simp_all add: tick_def sel_defs)
  ultimately have "GetPosition (tick 16 ?w1) = CVector3_zero"
    using p1 e by (simp add: GetPosition_def)
  moreover have "GetPosition world_entering = CVector3_zero"
    using e by (simp add: GetPosition_def)
  ultimately show ?thesis
    using e by (simp add: IsInVehicle_def Length_gt vec_sub_def CVector3_zero_def
        world_entering_def world_on_foot_def)
qed


subsection \<open>The closest vehicle at the cap\<close>

lemma two_powr:
  "(2::real) powr 2 = 4" "(2::real) powr 3 = 8" "(2::real) powr (- 21) = 1 / 2097152"
proof -
  have a: "(2::real) powr (real n) = 2 ^ n" for n :: nat
    by (rule powr_realpow) simp
  have "(2::real) powr (real (2::nat)) = 4" by (simp only: a) simp
  then show "(2::real) powr 2 = 4" by (simp only: of_nat_numeral)
  have "(2::real) powr (real (3::nat)) = 8" by (simp only: a) simp
  then show "(2::real) powr 3 = 8" by (simp only: of_nat_numeral)
  have "(2::real) powr (real (21::nat)) = 2097152" by (simp only: a) simp
  then have b: "(2::real) powr 21 = 2097152" by (simp only: of_nat_numeral)
  have "(2::real) powr (- 21) = inverse (2 powr 21)"
    by (rule powr_minus)
  then show "(2::real) powr (- 21) = 1 / 2097152"
    by (simp only: b inverse_eq_divide)
qed

lemma binary32_round_below_6:
  assumes "25165823 / 4194304 < d" and "d < 6"
  shows "binary32_round d = 6"
proof -
  have pos: "0 < d" using assms(1) by simp
  have "4 \<le> d" using assms(1) by simp
  then have l1: "2 \<le> log 2 d" using pos by (simp add: le_log_iff two_powr del: powr_numeral)
  have "d < 8" using assms(2) by simp
  then have l2: "log 2 d < 3" using pos by (simp add: log_less_iff two_powr del: powr_numeral)
  have fl: "\<lfloor>log 2 d\<rfloor> = 2"
    using l1 l2 by (simp add: floor_eq_iff)
  have q: "2 powr (of_int 2 - 23) = (1 / 2097152 :: real)"
  proof -
    have "(of_int 2 - 23 :: real) = - 21" by simp
    then show ?thesis by (simp only: two_powr)
  qed
  have f: "\<lfloor>d * 2097152\<rfloor> = 12582911"
    using assms by (simp add: floor_eq_iff)
  have r: "d * 2097152 - 12582911 > 1 / 2"
    using assms(1) by simp
  have e: "round_nearest_even (d * 2097152) = 12582912"
    using r by (simp add: round_nearest_even_def f Let_def)
  have "binary32_round d = (1 / 2097152) * of_int (round_nearest_even (d / (1 / 2097152)))"
    using pos by (simp only: binary32_round_def Let_def abs_of_pos fl q) simp
  also have "d / (1 / 2097152) = d * 2097152" by simp
  finally show ?thesis
    by (simp add: e)
qed

lemma Length_lt: "0 \<le> c \<Longrightarrow> (Length v < c) = (fX v * fX v + fY v * fY v + fZ v * fZ v < c * c)"
proof -
  assume c: "0 \<le> c"
  then have "c = sqrt (c * c)" by simp
  then have "(Length v < c) = (sqrt (fX v * fX v + fY v * fY v + fZ v * fZ v) < sqrt (c * c))"
    by (simp add: Length_def)
  then show ?thesis by (simp only: real_sqrt_less_iff)
qed


text \<open>
  Claim C5 as stated fails at the cap: the vehicle is closer than 6.0, the distance
  computed in single precision is 6.0, which is not below the cap, and the search fails.
\<close>

theorem cap_rounding_hides_vehicle:
  "IsSpawned world_at_cap \<and> streamedVehicles world_at_cap = [101]
   \<and> GetDistanceBetweenPoints3D (GetPosition world_at_cap)
        (vPosition (vehicles world_at_cap 101)) < 6
   \<and> vdist world_at_cap 101 = 6
   \<and> GetClosestVehicle False world_at_cap = None"
proof -
  let ?d = "GetDistanceBetweenPoints3D (GetPosition world_at_cap)
        (vPosition (vehicles world_at_cap 101))"
  have s: "IsSpawned world_at_cap" "streamedVehicles world_at_cap = [101]"
    by (simp_all add: world_at_cap_def world_on_foot_defs sel_defs)
  have d: "?d = Length \<lparr>fX = - (12582911 / 2097152), fY = - (8589935 / 4294967296), fZ = 0\<rparr>"
    by (simp add: world_at_cap_def GetDistanceBetweenPoints3D_def GetPosition_def vec_sub_def
        CVector3_zero_def world_on_foot_defs sel_defs)
  have lo: "25165823 / 4194304 < ?d"
    unfolding d by (subst Length_gt) simp_all
  have hi: "?d < 6"
    unfolding d by (subst Length_lt) simp_all
  have m: "machine_Distance3D world_at_cap = (\<lambda>a b. binary32_round (GetDistanceBetweenPoints3D a b))"
    by (simp add: world_at_cap_def)
  have v: "vdist world_at_cap 101 = 6"
    unfolding vdist_def m by (rule binary32_round_below_6 [OF lo hi])
  have "GetClosestVehicle False world_at_cap = None"
    using v s by (simp add: GetClosestVehicle_def vdist_def Let_def)
  with s hi v show ?thesis
    by simp
qed


end
